theory Spec2Isabelle
  imports Complex_Main "HOL-Library.Log_Nat" "HOL-Library.List_Lexorder"
begin

section \<open>JavaScript numbers\<close>

text \<open>
  A JavaScript number is an IEEE 754 binary64 value.  The finite ones are kept as the
  rational they denote; \<open>NaN\<close> and the two infinities are values of their own.  The
  two zeros are one value here: no operation of the handlers below tells them apart
  (\<open>JSON.stringify\<close> prints both as \<open>0\<close>, \<open>toFixed\<close> prints both as \<open>0.00\<close>, no
  handler divides by a zero).
\<close>

datatype jsnum = Fin rat | NaN | PInf | NInf

definition ilog2 :: "rat \<Rightarrow> int" where
  \<comment> \<open>\<open>\<lfloor>log\<^sub>2 \<bar>q\<bar>\<rfloor>\<close> for \<open>q \<noteq> 0\<close>, from the bit lengths of numerator and denominator.\<close>
  "ilog2 q = (let (a, b) = quotient_of \<bar>q\<bar>; e0 = bitlen a - bitlen b
              in if of_int b * (2::rat) powi e0 \<le> of_int a then e0 else e0 - 1)"

definition round_even :: "rat \<Rightarrow> int" where
  \<comment> \<open>the nearest integer, a tie going to the even one\<close>
  "round_even n = (let f = \<lfloor>n\<rfloor>; d = n - of_int f
     in if d < 1/2 then f else if 1/2 < d then f + 1 else if even f then f else f + 1)"

definition fl :: "rat \<Rightarrow> jsnum" where
  \<comment> \<open>round to nearest binary64, ties to even: 53 significant bits, least exponent
      \<open>-1022\<close> (subnormals below), and an infinity when the rounded magnitude reaches
      \<open>2 ^ 1024\<close>\<close>
  "fl q = (if q = 0 then Fin 0 else
     let e = max (ilog2 q) (- 1022); ulp = (2::rat) powi (e - 52);
         n = round_even (q / ulp)
     in if 1024 \<le> e \<or> (e = 1023 \<and> \<bar>n\<bar> = 2 ^ 53)
        then (if 0 < q then PInf else NInf)
        else Fin (of_int n * ulp))"

fun num_mul :: "jsnum \<Rightarrow> jsnum \<Rightarrow> jsnum" where
  "num_mul NaN _ = NaN"
| "num_mul _ NaN = NaN"
| "num_mul (Fin a) (Fin b) = fl (a * b)"
| "num_mul (Fin a) PInf = (if a = 0 then NaN else if 0 < a then PInf else NInf)"
| "num_mul (Fin a) NInf = (if a = 0 then NaN else if 0 < a then NInf else PInf)"
| "num_mul PInf (Fin b) = (if b = 0 then NaN else if 0 < b then PInf else NInf)"
| "num_mul NInf (Fin b) = (if b = 0 then NaN else if 0 < b then NInf else PInf)"
| "num_mul PInf PInf = PInf"
| "num_mul PInf NInf = NInf"
| "num_mul NInf PInf = NInf"
| "num_mul NInf NInf = PInf"

fun num_div :: "jsnum \<Rightarrow> jsnum \<Rightarrow> jsnum" where
  \<comment> \<open>a zero divisor is taken as \<open>+0\<close>; the handlers only divide by 100\<close>
  "num_div NaN _ = NaN"
| "num_div _ NaN = NaN"
| "num_div (Fin a) (Fin b) =
     (if b = 0 then (if a = 0 then NaN else if 0 < a then PInf else NInf) else fl (a / b))"
| "num_div (Fin a) PInf = Fin 0"
| "num_div (Fin a) NInf = Fin 0"
| "num_div PInf (Fin b) = (if 0 \<le> b then PInf else NInf)"
| "num_div NInf (Fin b) = (if 0 \<le> b then NInf else PInf)"
| "num_div PInf PInf = NaN"
| "num_div PInf NInf = NaN"
| "num_div NInf PInf = NaN"
| "num_div NInf NInf = NaN"

fun math_floor :: "jsnum \<Rightarrow> jsnum" where
  "math_floor (Fin a) = Fin (of_int \<lfloor>a\<rfloor>)"
| "math_floor x = x"

fun math_abs :: "jsnum \<Rightarrow> jsnum" where
  "math_abs (Fin a) = Fin \<bar>a\<bar>"
| "math_abs NaN = NaN"
| "math_abs PInf = PInf"
| "math_abs NInf = PInf"

fun num_gt :: "jsnum \<Rightarrow> jsnum \<Rightarrow> bool" where
  \<comment> \<open>\<open>x > y\<close>: false whenever an operand is \<open>NaN\<close>\<close>
  "num_gt NaN _ = False"
| "num_gt _ NaN = False"
| "num_gt (Fin a) (Fin b) = (b < a)"
| "num_gt (Fin a) PInf = False"
| "num_gt (Fin a) NInf = True"
| "num_gt PInf PInf = False"
| "num_gt PInf _ = True"
| "num_gt NInf _ = False"

section \<open>JavaScript values of a request body\<close>

datatype jsval =
    JUndefined
  | JNull
  | JBoolean bool
  | JNumber jsnum
  | JString string
  | JObject

fun typeof :: "jsval \<Rightarrow> string" where
  "typeof JUndefined = ''undefined''"
| "typeof JNull = ''object''"
| "typeof (JBoolean b) = ''boolean''"
| "typeof (JNumber n) = ''number''"
| "typeof (JString s) = ''string''"
| "typeof JObject = ''object''"

fun truthy :: "jsval \<Rightarrow> bool" where
  "truthy JUndefined = False"
| "truthy JNull = False"
| "truthy (JBoolean b) = b"
| "truthy (JNumber n) = (n \<noteq> Fin 0 \<and> n \<noteq> NaN)"
| "truthy (JString s) = (s \<noteq> [])"
| "truthy JObject = True"

definition truthy_str :: "string option \<Rightarrow> bool" where
  \<comment> \<open>a header, path parameter or query parameter: absent, or a string\<close>
  "truthy_str v = (case v of None \<Rightarrow> False | Some s \<Rightarrow> s \<noteq> [])"

section \<open>Responses\<close>

datatype json =
    JNul
  | JBool bool
  | JNum jsnum
  | JInt int
  | JStr string
  | JArr "json list"
  | JObj "(string \<times> json) list"

datatype payload = Json json | Text string

record response =
  http_status :: nat
  content :: payload

datatype js_error = TypeError | DbSyntaxError | BcryptError

datatype outcome = Sent response | Threw js_error

definition json_reply :: "nat \<Rightarrow> (string \<times> json) list \<Rightarrow> response" where
  \<comment> \<open>\<open>res.status(code).json({...})\<close>; \<open>res.json\<close> alone leaves the status at 200\<close>
  "json_reply code fs = \<lparr>http_status = code, content = Json (JObj fs)\<rparr>"

definition error_reply :: "nat \<Rightarrow> string \<Rightarrow> response" where
  "error_reply code msg = json_reply code [(''status'', JStr ''error''), (''message'', JStr msg)]"

definition ok_reply :: response where
  "ok_reply = json_reply 200 [(''status'', JStr ''ok'')]"

definition field :: "response \<Rightarrow> string \<Rightarrow> json option" where
  "field r k = (case content r of Json (JObj fs) \<Rightarrow> map_of fs k | _ \<Rightarrow> None)"

section \<open>The database\<close>

text \<open>
  The schema (\<open>data/setup.psql\<close>) is not among the sources; the tables have the columns
  the statements of \<open>routers/api.js\<close> name.  Of a user's columns, \<open>created_at\<close>,
  \<open>custom_labels\<close> and \<open>custom_colors\<close> are left out: only \<open>GET /me\<close> reads them.
  The columns of \<open>mood\<close> stand in the order in which \<open>insert into mood values\<close> of
  line 173 gives their values.  A timestamp is an integer (the driver hands it over as a
  string of digits, which is why line 168 applies \<open>parseInt\<close> to it).
\<close>

record user_row =
  u_id :: nat
  username :: string
  password_hash :: string
  token :: string
  is_profile_private :: bool
  is_history_private :: bool
  stats_mood_sets :: int

record mood_row =
  m_id :: nat
  timestamp :: int
  pleasantness :: jsnum
  energy :: jsnum
  user_id :: nat

datatype stmt =
    SelectUserByToken string
  | SelectPublicUserByName string
  | SelectUsernameTaken string
  | UpdateUser nat
  | SelectLatestMood nat
  | UpdateMood "nat option"
  | InsertMood nat
  | IncrementMoodSets nat
  | SelectHistoryAll nat string
  | SelectHistoryPage nat int int string int int
  | SelectPublicUsers "string list"

record db =
  users :: "user_row list"
  mood :: "mood_row list"
  mood_seq :: nat
  issued :: "stmt list"

definition issue :: "stmt \<Rightarrow> db \<Rightarrow> db" where
  \<comment> \<open>every call of \<open>exec$\<close> sends one statement\<close>
  "issue s d = d\<lparr>issued := issued d @ [s]\<rparr>"

definition fetch_first :: "'a list \<Rightarrow> 'a option" where
  \<comment> \<open>\<open>fetch$\<close>: row 0 of the result, \<open>undefined\<close> when there is none\<close>
  "fetch_first rows = (case rows of [] \<Rightarrow> None | r # _ \<Rightarrow> Some r)"

section \<open>Requests\<close>

record request =
  authorization :: "string option"
  params_user :: "string option"
  query :: "string \<Rightarrow> string option"
  body :: "string \<Rightarrow> jsval"

text \<open>
  What a middleware hands on: either it has answered the request itself, or it has
  called \<open>next()\<close>, and the handler after it sees \<open>req.user\<close> as the middleware left it
  (\<open>None\<close> is \<open>undefined\<close>).
\<close>

datatype step = Respond response | Next "user_row option"

section \<open>Identity resolver (\<open>routers/api.js\<close>, lines 9 to 52)\<close>

definition username_char :: "char \<Rightarrow> bool" where
  "username_char c = (c \<in> set ''abcdefghijklmnopqrstuvwxyz0123456789_-'')"

definition valid_username :: "string \<Rightarrow> bool" where
  \<comment> \<open>\<open>/^[a-z0-9_-]{3,32}$/\<close>\<close>
  "valid_username s = (3 \<le> length s \<and> length s \<le> 32 \<and> list_all username_char s)"

definition select_user_by_token :: "db \<Rightarrow> string \<Rightarrow> user_row option \<times> db" where
  \<comment> \<open>\<open>select * from users where token=$1\<close>\<close>
  "select_user_by_token d t =
     (fetch_first (filter (\<lambda>u. token u = t) (users d)), issue (SelectUserByToken t) d)"

definition select_public_user_by_name :: "db \<Rightarrow> string \<Rightarrow> user_row option \<times> db" where
  \<comment> \<open>\<open>select * from users where username=$1 and is_profile_private=false and
      is_history_private=false\<close>\<close>
  "select_public_user_by_name d name =
     (fetch_first (filter (\<lambda>u. username u = name \<and> is_profile_private u = False
                                 \<and> is_history_private u = False) (users d)),
      issue (SelectPublicUserByName name) d)"

definition getAuth :: "db \<Rightarrow> request \<Rightarrow> step \<times> db" where
  "getAuth d req =
     (let (user, d1) =
            (case authorization req of
               None \<Rightarrow> (None, d)
             | Some t \<Rightarrow> if t = [] then (None, d) else select_user_by_token d t)
      in case user of
           None \<Rightarrow> (Respond (error_reply 401 ''Unauthorized''), d1)
         | Some u \<Rightarrow> (Next (Some u), d1))"

definition resolved :: "request \<Rightarrow> user_row option \<times> db \<Rightarrow> step \<times> db" where
  \<comment> \<open>lines 42 to 51: the test of \<open>req.user\<close> that ends \<open>userParamOrAuth\<close>\<close>
  "resolved req r =
     (case r of
        (None, d1) \<Rightarrow>
          (Respond (error_reply 401
             (if truthy_str (params_user req) then ''User not found'' else ''Unauthorized'')), d1)
      | (Some u, d1) \<Rightarrow> (Next (Some u), d1))"

definition userParamOrAuth :: "db \<Rightarrow> request \<Rightarrow> step \<times> db" where
  "userParamOrAuth d req =
     (if truthy_str (params_user req) then
        (case params_user req of
           None \<Rightarrow> resolved req (None, d)
         | Some name \<Rightarrow>
             if \<not> valid_username name then (Next None, d)
             else resolved req (select_public_user_by_name d name))
      else if truthy_str (authorization req) then
        (case authorization req of
           None \<Rightarrow> resolved req (None, d)
         | Some t \<Rightarrow> resolved req (select_user_by_token d t))
      else resolved req (None, d))"

definition route :: "step \<times> db \<Rightarrow> (db \<Rightarrow> user_row option \<Rightarrow> outcome \<times> db) \<Rightarrow> outcome \<times> db" where
  \<comment> \<open>\<open>router.METHOD(path, middleware, handler)\<close>\<close>
  "route m handler =
     (case m of (Respond r, d1) \<Rightarrow> (Sent r, d1) | (Next u, d1) \<Rightarrow> handler d1 u)"

section \<open>The latest sample\<close>

record mood_sample =
  s_id :: "nat option"
  s_timestamp :: int
  s_pleasantness :: jsnum
  s_energy :: jsnum

definition order_by_id :: "string \<Rightarrow> mood_row list \<Rightarrow> js_error + mood_row list" where
  \<comment> \<open>\<open>order by id <direction>\<close>, the direction as the text the statement carries:
      the handlers write \<open>asc\<close>, \<open>desc\<close> or \<open>null\<close> there, and the engine rejects
      \<open>order by id null\<close> as a syntax error\<close>
  "order_by_id dir rows =
     (if dir = ''asc'' then Inr (sort_key m_id rows)
      else if dir = ''desc'' then Inr (rev (sort_key m_id rows))
      else Inl DbSyntaxError)"

definition default_mood :: mood_sample where
  \<comment> \<open>Modelled from the spec: \<open>util.js\<close> is not among the sources. The sample that
      stands for "no sample yet" has timestamp 0 and no identifier; its pleasantness and
      energy are taken as 0.\<close>
  "default_mood = \<lparr>s_id = None, s_timestamp = 0, s_pleasantness = Fin 0, s_energy = Fin 0\<rparr>"

definition fetchMood :: "db \<Rightarrow> nat \<Rightarrow> mood_sample \<times> db" where
  \<comment> \<open>Modelled from the spec: \<open>fetchMood\<close> of \<open>util.js\<close>, which is not among the sources.
      The subject's sample of highest identifier, the synthetic one when there is none.\<close>
  "fetchMood d uid =
     (case fetch_first (rev (sort_key m_id (filter (\<lambda>r. user_id r = uid) (mood d)))) of
        None \<Rightarrow> (default_mood, issue (SelectLatestMood uid) d)
      | Some r \<Rightarrow>
          (\<lparr>s_id = Some (m_id r), s_timestamp = timestamp r, s_pleasantness = pleasantness r,
            s_energy = energy r\<rparr>, issue (SelectLatestMood uid) d))"

definition sample_json :: "mood_sample \<Rightarrow> json" where
  \<comment> \<open>Modelled from the spec: the object \<open>fetchMood\<close> returns, as \<open>res.json\<close> writes
      it; its exact fields are those of \<open>util.js\<close>.\<close>
  "sample_json m = JObj [(''timestamp'', JInt (s_timestamp m)),
     (''pleasantness'', JNum (s_pleasantness m)), (''energy'', JNum (s_energy m))]"

definition get_mood :: "db \<Rightarrow> user_row option \<Rightarrow> outcome \<times> db" where
  \<comment> \<open>lines 147 to 152; \<open>req.user.id\<close> of an unset \<open>req.user\<close> throws\<close>
  "get_mood d user =
     (case user of
        None \<Rightarrow> (Threw TypeError, d)
      | Some u \<Rightarrow>
          (let (m, d1) = fetchMood d (u_id u)
           in (Sent (json_reply 200 [(''status'', JStr ''ok''), (''mood'', sample_json m)]), d1)))"

definition route_get_mood :: "db \<Rightarrow> request \<Rightarrow> outcome \<times> db" where
  "route_get_mood d req = route (userParamOrAuth d req) get_mood"

section \<open>Mood update engine (\<open>routers/api.js\<close>, lines 154 to 186)\<close>

definition update_mood :: "db \<Rightarrow> jsnum \<Rightarrow> jsnum \<Rightarrow> int \<Rightarrow> nat option \<Rightarrow> db" where
  \<comment> \<open>\<open>update mood set pleasantness=$1, energy=$2, timestamp=$3 where id=$4\<close>; an
      absent identifier is sent as null, which equals no row's\<close>
  "update_mood d p e t i =
     issue (UpdateMood i)
       (d\<lparr>mood := map (\<lambda>r. if Some (m_id r) = i
                              then r\<lparr>pleasantness := p, energy := e, timestamp := t\<rparr>
                              else r) (mood d)\<rparr>)"

definition insert_mood :: "db \<Rightarrow> int \<Rightarrow> jsnum \<Rightarrow> jsnum \<Rightarrow> nat \<Rightarrow> db" where
  \<comment> \<open>\<open>insert into mood values (default, $1, $2, $3, $4)\<close>: the identifier comes from
      the table's sequence\<close>
  "insert_mood d t p e uid =
     issue (InsertMood uid)
       (d\<lparr>mood := mood d @ [\<lparr>m_id = mood_seq d, timestamp = t, pleasantness = p,
                                energy = e, user_id = uid\<rparr>],
          mood_seq := Suc (mood_seq d)\<rparr>)"

definition increment_mood_sets :: "db \<Rightarrow> nat \<Rightarrow> db" where
  \<comment> \<open>\<open>update users set stats_mood_sets=stats_mood_sets + 1 where id=$1\<close>\<close>
  "increment_mood_sets d uid =
     issue (IncrementMoodSets uid)
       (d\<lparr>users := map (\<lambda>u. if u_id u = uid
                               then u\<lparr>stats_mood_sets := stats_mood_sets u + 1\<rparr>
                               else u) (users d)\<rparr>)"

definition mood_range_error :: response where
  "mood_range_error =
     error_reply 400 ''`pleasantness` and `energy` fields need to be a float from -1 to 1''"

definition put_mood :: "int \<Rightarrow> int \<Rightarrow> request \<Rightarrow> db \<Rightarrow> user_row option \<Rightarrow> outcome \<times> db" where
  \<comment> \<open>\<open>now1\<close> is what \<open>Date.now()\<close> returns in the test of line 168, \<open>now2\<close> what it
      returns in the statement's parameters (line 170 or 174).  The two tests of
      \<open>typeof\<close> come first in the disjunction of lines 155 to 160, so \<open>Math.abs\<close> is
      applied to numbers only.\<close>
  "put_mood now1 now2 req d user =
     (case (body req ''pleasantness'', body req ''energy'') of
        (JNumber p, JNumber e) \<Rightarrow>
          if num_gt (math_abs p) (Fin 1) \<or> num_gt (math_abs e) (Fin 1)
          then (Sent mood_range_error, d)
          else (case user of
                  None \<Rightarrow> (Threw TypeError, d)
                | Some u \<Rightarrow>
                    (let (lastMood, d1) = fetchMood d (u_id u)
                     in if s_timestamp lastMood + 10000 > now1
                        then (Sent ok_reply, update_mood d1 p e now2 (s_id lastMood))
                        else (Sent ok_reply,
                              increment_mood_sets (insert_mood d1 now2 p e (u_id u)) (u_id u))))
      | _ \<Rightarrow> (Sent mood_range_error, d))"

definition route_put_mood :: "int \<Rightarrow> int \<Rightarrow> db \<Rightarrow> request \<Rightarrow> outcome \<times> db" where
  "route_put_mood now1 now2 d req = route (getAuth d req) (put_mood now1 now2 req)"

definition unit_value :: "jsval \<Rightarrow> bool" where
  \<comment> \<open>the spec's words: a finite number of absolute value at most 1\<close>
  "unit_value v = (case v of JNumber (Fin q) \<Rightarrow> \<bar>q\<bar> \<le> 1 | _ \<Rightarrow> False)"

definition json_carried :: "jsval \<Rightarrow> bool" where
  \<comment> \<open>a field of a body parsed from JSON: absent, null, a boolean, a string, an object,
      or a number that is finite or (written with an exponent beyond the range, as
      \<open>1e999\<close>) infinite; JSON has no text that parses to \<open>NaN\<close>\<close>
  "json_carried v = (v \<noteq> JNumber NaN)"

section \<open>Query parameters\<close>

text \<open>
  A query parameter is absent or a string; a string is its sequence of bytes in UTF-8.
  \<open>parseInt\<close> skips leading white space, reads a sign, the prefix \<open>0x\<close> for base 16,
  and the longest run of digits; it returns \<open>NaN\<close> (here \<open>None\<close>) when there is no
  digit, also for an absent parameter.  The integer is kept exact: the handler compares
  it with small integers and tests it with \<open>Number.isSafeInteger\<close>, and rounding to
  binary64 changes neither answer.
\<close>

definition white_space :: "string list" where
  \<comment> \<open>the characters of \<open>StrWhiteSpaceChar\<close>: tab, line feed, vertical tab, form feed,
      carriage return, space, U+00A0, U+1680, U+2000 to U+200A, U+2028, U+2029, U+202F,
      U+205F, U+3000 and U+FEFF\<close>
  "white_space =
     [[CHR 0x09], [CHR 0x0A], [CHR 0x0B], [CHR 0x0C], [CHR 0x0D], [CHR 0x20],
      [CHR 0xC2, CHR 0xA0], [CHR 0xE1, CHR 0x9A, CHR 0x80],
      [CHR 0xE2, CHR 0x80, CHR 0x80], [CHR 0xE2, CHR 0x80, CHR 0x81],
      [CHR 0xE2, CHR 0x80, CHR 0x82], [CHR 0xE2, CHR 0x80, CHR 0x83],
      [CHR 0xE2, CHR 0x80, CHR 0x84], [CHR 0xE2, CHR 0x80, CHR 0x85],
      [CHR 0xE2, CHR 0x80, CHR 0x86], [CHR 0xE2, CHR 0x80, CHR 0x87],
      [CHR 0xE2, CHR 0x80, CHR 0x88], [CHR 0xE2, CHR 0x80, CHR 0x89],
      [CHR 0xE2, CHR 0x80, CHR 0x8A], [CHR 0xE2, CHR 0x80, CHR 0xA8],
      [CHR 0xE2, CHR 0x80, CHR 0xA9], [CHR 0xE2, CHR 0x80, CHR 0xAF],
      [CHR 0xE2, CHR 0x81, CHR 0x9F], [CHR 0xE3, CHR 0x80, CHR 0x80],
      [CHR 0xEF, CHR 0xBB, CHR 0xBF]]"

definition white_prefix :: "string \<Rightarrow> nat" where
  \<comment> \<open>the number of bytes of the white space character a string starts with, 0 when it
      starts with none\<close>
  "white_prefix s =
     (case filter (\<lambda>w. take (length w) s = w) white_space of [] \<Rightarrow> 0 | w # _ \<Rightarrow> length w)"

function skip_white :: "string \<Rightarrow> string" where
  "skip_white s = (if white_prefix s = 0 then s else skip_white (drop (white_prefix s) s))"
  by pat_completeness auto

termination skip_white
proof (relation "measure length")
  show "wf (measure length)" by simp
next
  fix s :: string
  assume w: "white_prefix s \<noteq> 0"
  have "white_prefix [] = 0"
    by (simp add: white_prefix_def white_space_def)
  with w have "s \<noteq> []" by auto
  with w show "(drop (white_prefix s) s, s) \<in> measure length" by simp
qed

definition digit_of :: "nat \<Rightarrow> char \<Rightarrow> nat option" where
  "digit_of radix c =
     (let n = (of_char c :: nat)
      in if 48 \<le> n \<and> n \<le> 57 then Some (n - 48)
         else if radix = 16 \<and> 97 \<le> n \<and> n \<le> 102 then Some (n - 87)
         else if radix = 16 \<and> 65 \<le> n \<and> n \<le> 70 then Some (n - 55)
         else None)"

definition digits_value :: "nat \<Rightarrow> string \<Rightarrow> nat" where
  "digits_value radix z =
     foldl (\<lambda>a c. a * radix + (case digit_of radix c of None \<Rightarrow> 0 | Some v \<Rightarrow> v)) 0 z"

definition parse_unsigned :: "string \<Rightarrow> nat option" where
  "parse_unsigned s =
     (let hex = (take 2 s = ''0x'' \<or> take 2 s = ''0X'');
          radix = (if hex then 16 else 10);
          z = takeWhile (\<lambda>c. digit_of radix c \<noteq> None) (if hex then drop 2 s else s)
      in if z = [] then None else Some (digits_value radix z))"

definition parseInt :: "string option \<Rightarrow> int option" where
  "parseInt v =
     (case v of
        None \<Rightarrow> None
      | Some s \<Rightarrow>
          (case skip_white s of
             [] \<Rightarrow> None
           | c # cs \<Rightarrow>
               if c = CHR ''-'' then map_option (\<lambda>n. - int n) (parse_unsigned cs)
               else if c = CHR ''+'' then map_option int (parse_unsigned cs)
               else map_option int (parse_unsigned (c # cs))))"

definition or_default :: "int option \<Rightarrow> int \<Rightarrow> int" where
  \<comment> \<open>\<open>parseInt(x) || dflt\<close>: \<open>NaN\<close> and 0 are falsy\<close>
  "or_default v dflt = (case v of None \<Rightarrow> dflt | Some n \<Rightarrow> if n = 0 then dflt else n)"

definition isSafeInteger :: "int \<Rightarrow> bool" where
  "isSafeInteger n = (\<bar>n\<bar> \<le> 2 ^ 53 - 1)"

definition sort_direction :: "string option \<Rightarrow> string option" where
  "sort_direction s =
     (if s = Some ''newest'' then Some ''desc''
      else if s = Some ''oldest'' then Some ''asc''
      else None)"

definition interpolate :: "string option \<Rightarrow> string" where
  \<comment> \<open>\<open>${sort}\<close> in a template literal: \<open>null\<close> is written as the text \<open>null\<close>\<close>
  "interpolate s = (case s of None \<Rightarrow> ''null'' | Some t \<Rightarrow> t)"

section \<open>History query engine (\<open>routers/api.js\<close>, lines 207 to 325)\<close>

definition trunc2 :: "jsnum \<Rightarrow> jsnum" where
  \<comment> \<open>\<open>Math.floor(x * 100) / 100\<close>\<close>
  "trunc2 x = num_div (math_floor (num_mul x (Fin 100))) (Fin 100)"

definition format_entry :: "mood_row \<Rightarrow> json" where
  "format_entry x = JObj [(''timestamp'', JInt (timestamp x)),
     (''pleasantness'', JNum (trunc2 (pleasantness x))),
     (''energy'', JNum (trunc2 (energy x)))]"

definition sort_error :: response where
  "sort_error = json_reply 200 [(''status'', JStr ''error''),
     (''message'', JStr ''`sort` must be one of ('newest', 'oldest')'')]"

definition select_history_all :: "db \<Rightarrow> nat \<Rightarrow> string \<Rightarrow> (js_error + mood_row list) \<times> db" where
  \<comment> \<open>\<open>select timestamp, pleasantness, energy from mood where user_id=$1 order by id
      ${sort}\<close>\<close>
  "select_history_all d uid dir =
     (order_by_id dir (filter (\<lambda>r. user_id r = uid) (mood d)), issue (SelectHistoryAll uid dir) d)"

definition history_all :: "request \<Rightarrow> db \<Rightarrow> user_row option \<Rightarrow> outcome \<times> db" where
  "history_all req d user =
     (let sort = sort_direction (query req ''sort'')
      in if truthy_str (query req ''sort'') \<and> sort = None then (Sent sort_error, d)
         else (case user of
                 None \<Rightarrow> (Threw TypeError, d)
               | Some u \<Rightarrow>
                   (case select_history_all d (u_id u) (interpolate sort) of
                      (Inl err, d1) \<Rightarrow> (Threw err, d1)
                    | (Inr history, d1) \<Rightarrow>
                        (Sent (json_reply 200 [(''status'', JStr ''ok''),
                           (''entries'', JArr (map format_entry history))]), d1))))"

definition route_history_all :: "db \<Rightarrow> request \<Rightarrow> outcome \<times> db" where
  "route_history_all d req = route (userParamOrAuth d req) (history_all req)"

definition select_history_page ::
  "db \<Rightarrow> nat \<Rightarrow> int \<Rightarrow> int \<Rightarrow> string \<Rightarrow> int \<Rightarrow> int \<Rightarrow> (js_error + mood_row list) \<times> db" where
  \<comment> \<open>\<open>select timestamp, pleasantness, energy from mood where user_id=$1 and
      timestamp > $2 and timestamp < $3 order by id ${sort || "desc"} limit ${limit}
      offset ${page * limit}\<close>\<close>
  "select_history_page d uid after before dir n k =
     (map_sum id (\<lambda>rows. take (nat n) (drop (nat k) rows))
        (order_by_id dir
           (filter (\<lambda>r. user_id r = uid \<and> after < timestamp r \<and> timestamp r < before) (mood d))),
      issue (SelectHistoryPage uid after before dir n k) d)"

definition limit_error :: response where
  \<comment> \<open>line 278 spells the field \<open>messge\<close>\<close>
  "limit_error = json_reply 200 [(''status'', JStr ''error''),
     (''messge'', JStr ''`limit` must be in range 1..100'')]"

definition range_error :: response where
  "range_error = json_reply 200 [(''status'', JStr ''error''),
     (''message'', JStr ''Invalid time range'')]"

definition page_reply :: "json list \<Rightarrow> int \<Rightarrow> int \<Rightarrow> response" where
  "page_reply es t ps = json_reply 200 [(''status'', JStr ''ok''),
     (''entries'', JArr es), (''total'', JInt t), (''pages'', JInt ps)]"

definition history :: "int \<Rightarrow> request \<Rightarrow> db \<Rightarrow> user_row option \<Rightarrow> outcome \<times> db" where
  \<comment> \<open>\<open>now\<close> is what \<open>Date.now()\<close> returns at line 265\<close>
  "history now req d user =
     (case user of
        None \<Rightarrow> (Threw TypeError, d)
      | Some u \<Rightarrow>
          (let limit = or_default (parseInt (query req ''limit'')) 25;
               page = or_default (parseInt (query req ''page'')) 0;
               pages = stats_mood_sets u div limit;
               before = or_default (parseInt (query req ''before'')) now;
               after = or_default (parseInt (query req ''after'')) 0;
               sort = sort_direction (query req ''sort'')
           in if limit < 1 \<or> limit > 100 then (Sent limit_error, d)
              else if truthy_str (query req ''sort'') \<and> sort = None then (Sent sort_error, d)
              else if after < 0 \<or> after \<ge> before \<or> \<not> isSafeInteger before
                      \<or> \<not> isSafeInteger after
                   then (Sent range_error, d)
              else if page < 0 \<or> (page \<noteq> 0 \<and> page \<ge> pages)
                   then (Sent (page_reply [] (stats_mood_sets u) pages), d)
              else (case select_history_page d (u_id u) after before
                           (case sort of None \<Rightarrow> ''desc'' | Some s \<Rightarrow> s) limit (page * limit) of
                      (Inl err, d1) \<Rightarrow> (Threw err, d1)
                    | (Inr rows, d1) \<Rightarrow>
                        (Sent (page_reply (map format_entry rows) (stats_mood_sets u) pages), d1))))"

definition route_history :: "int \<Rightarrow> db \<Rightarrow> request \<Rightarrow> outcome \<times> db" where
  "route_history now d req = route (userParamOrAuth d req) (history now req)"

section \<open>Primitives of the runtime and of the libraries\<close>

text \<open>
  \<open>bcrypt.compare\<close>, \<open>bcrypt.hash\<close>, \<open>randomBytes(48).toString("base64url")\<close> and the
  runtime's \<open>Number::toString\<close> are not code of this repository: the handlers take them
  as they come.
\<close>

record prims =
  bcrypt_compare :: "string \<Rightarrow> string \<Rightarrow> bool"
  bcrypt_hash :: "string \<Rightarrow> string"
  random_token :: string
  number_to_string :: "rat \<Rightarrow> string"

section \<open>Metrics aggregator (\<open>routers/api.js\<close>, lines 327 to 381)\<close>

fun split_comma :: "string \<Rightarrow> string list" where
  \<comment> \<open>\<open>s.split(",")\<close>\<close>
  "split_comma [] = [[]]"
| "split_comma (c # cs) =
     (if c = CHR '','' then [] # split_comma cs
      else (case split_comma cs of [] \<Rightarrow> [[c]] | w # ws \<Rightarrow> (c # w) # ws))"

fun dec :: "nat \<Rightarrow> string" where
  "dec n = (if n < 10 then [char_of (48 + n)] else dec (n div 10) @ [char_of (48 + n mod 10)])"

definition show_int :: "int \<Rightarrow> string" where
  "show_int i = (if i < 0 then ''-'' @ dec (nat (- i)) else dec (nat i))"

definition toFixed2 :: "prims \<Rightarrow> jsnum \<Rightarrow> string" where
  \<comment> \<open>\<open>Number.prototype.toFixed(2)\<close>: the integer \<open>n\<close> nearest to \<open>100 * \<bar>x\<bar>\<close>, the
      larger one of two, written with two decimals\<close>
  "toFixed2 P x =
     (case x of
        NaN \<Rightarrow> ''NaN''
      | PInf \<Rightarrow> ''Infinity''
      | NInf \<Rightarrow> ''-Infinity''
      | Fin q \<Rightarrow>
          (if q < 0 then ''-'' else [])
          @ (if 10 ^ 21 \<le> \<bar>q\<bar> then number_to_string P \<bar>q\<bar>
             else (let m = dec (nat \<lfloor>\<bar>q\<bar> * 100 + 1 / 2\<rfloor>);
                       z = replicate (3 - length m) (CHR ''0'') @ m
                   in take (length z - 2) z @ ''.'' @ drop (length z - 2) z)))"

fun join_lines :: "string list \<Rightarrow> string" where
  \<comment> \<open>\<open>lines.join("\n")\<close>\<close>
  "join_lines [] = []"
| "join_lines [l] = l"
| "join_lines (l # ls) = l @ [CHR 0x0A] @ join_lines ls"

definition select_public_users ::
  "(string \<Rightarrow> 'k::linorder) \<Rightarrow> db \<Rightarrow> string list \<Rightarrow> user_row list \<times> db" where
  \<comment> \<open>\<open>select id, username, stats_mood_sets from users where username=any($1) and
      is_profile_private=false and is_history_private=false order by username desc\<close>;
      \<open>collate\<close> is the key by which the collation of the database orders text\<close>
  "select_public_users collate d names =
     (rev (sort_key (\<lambda>u. collate (username u))
        (filter (\<lambda>u. username u \<in> set names \<and> is_profile_private u = False
                      \<and> is_history_private u = False) (users d))),
      issue (SelectPublicUsers names) d)"

fun fetch_moods :: "(nat \<Rightarrow> mood_sample option) \<Rightarrow> db \<Rightarrow> user_row list
    \<Rightarrow> (nat \<Rightarrow> mood_sample option) \<times> db" where
  \<comment> \<open>\<open>for (const user of users) moods[user.id] = await fetchMood(user.id)\<close>\<close>
  "fetch_moods moods d [] = (moods, d)"
| "fetch_moods moods d (u # us) =
     (let (m, d1) = fetchMood d (u_id u) in fetch_moods (moods(u_id u \<mapsto> m)) d1 us)"

definition metric_line :: "string \<Rightarrow> user_row \<Rightarrow> string \<Rightarrow> string" where
  \<comment> \<open>\<open>`name{user="${x.username}"} ${value}`\<close>\<close>
  "metric_line name x v = name @ ''{user='' @ [CHR 0x22] @ username x @ [CHR 0x22] @ ''} '' @ v"

definition energy_line :: "prims \<Rightarrow> (nat \<Rightarrow> mood_sample option) \<Rightarrow> user_row \<Rightarrow> string option" where
  "energy_line P moods x =
     map_option (\<lambda>m. metric_line ''user_energy'' x (toFixed2 P (s_energy m))) (moods (u_id x))"

definition pleasantness_line ::
  "prims \<Rightarrow> (nat \<Rightarrow> mood_sample option) \<Rightarrow> user_row \<Rightarrow> string option" where
  "pleasantness_line P moods x =
     map_option (\<lambda>m. metric_line ''user_pleasantness'' x (toFixed2 P (s_pleasantness m)))
       (moods (u_id x))"

definition mood_sets_line :: "user_row \<Rightarrow> string" where
  "mood_sets_line x = metric_line ''user_mood_sets'' x (show_int (stats_mood_sets x))"

definition exposition :: "string list \<Rightarrow> string list \<Rightarrow> string list \<Rightarrow> string list" where
  \<comment> \<open>the array of lines 362 to 380\<close>
  "exposition es ps ms =
     [''# HELP user_energy Current energy of the user.'',
      ''# TYPE user_energy gauge''] @ es @
     [[],
      ''# HELP user_pleasantness How pleasant the user is feeling.'',
      ''# TYPE user_pleasantness gauge''] @ ps @
     [[],
      ''# HELP user_mood_sets How often a user has changed their mood.'',
      ''# TYPE user_mood_sets counter''] @ ms"

definition metrics ::
  "(string \<Rightarrow> 'k::linorder) \<Rightarrow> prims \<Rightarrow> db \<Rightarrow> request \<Rightarrow> outcome \<times> db" where
  \<comment> \<open>reading a property of an absent entry of \<open>moods\<close> throws\<close>
  "metrics collate P d req =
     (case query req ''users'' of
        None \<Rightarrow> (Sent (error_reply 400 ''Missing query param `users`''), d)
      | Some s \<Rightarrow>
          if s = [] then (Sent (error_reply 400 ''Missing query param `users`''), d)
          else (let usernames = split_comma s
                in if length usernames > 16 then (Sent (error_reply 400 ''Too many users''), d)
                   else (let (us, d1) = select_public_users collate d usernames;
                             (moods, d2) = fetch_moods Map.empty d1 us
                         in case (those (map (energy_line P moods) us),
                                  those (map (pleasantness_line P moods) us)) of
                              (Some es, Some ps) \<Rightarrow>
                                (Sent \<lparr>http_status = 200,
                                       content = Text (join_lines
                                         (exposition es ps (map mood_sets_line us)))\<rparr>, d2)
                            | _ \<Rightarrow> (Threw TypeError, d2))))"

section \<open>Account settings (\<open>routers/api.js\<close>, lines 68 to 124)\<close>

definition password_check :: "prims \<Rightarrow> request \<Rightarrow> user_row \<Rightarrow> outcome option" where
  \<comment> \<open>lines 69 to 76; \<open>bcrypt.compare\<close> rejects data that is not a string.  \<open>None\<close>:
      the handler goes on\<close>
  "password_check P req u =
     (if truthy (body req ''username'') \<or> truthy (body req ''new_password'') then
        (case body req ''confirm_password'' of
           JString c \<Rightarrow>
             if \<not> bcrypt_compare P c (password_hash u)
             then Some (Sent (error_reply 401 ''Passwords do not match''))
             else None
         | _ \<Rightarrow> Some (Threw BcryptError))
      else None)"

definition select_username_taken :: "db \<Rightarrow> string \<Rightarrow> bool \<times> db" where
  \<comment> \<open>\<open>select 1 from users where username=$1\<close>\<close>
  "select_username_taken d name =
     (filter (\<lambda>u. username u = name) (users d) \<noteq> [], issue (SelectUsernameTaken name) d)"

definition new_username :: "request \<Rightarrow> db \<Rightarrow> user_row \<Rightarrow> (response + user_row) \<times> db" where
  \<comment> \<open>lines 78 to 94\<close>
  "new_username req d u =
     (case body req ''username'' of
        JString name \<Rightarrow>
          if \<not> valid_username name then (Inl (error_reply 400 ''Invalid username''), d)
          else (let (taken, d1) = select_username_taken d name
                in if taken then (Inl (error_reply 409 ''Username taken''), d1)
                   else (Inr (u\<lparr>username := name\<rparr>), d1))
      | _ \<Rightarrow> (Inr u, d))"

definition new_password :: "prims \<Rightarrow> request \<Rightarrow> user_row \<Rightarrow> user_row" where
  \<comment> \<open>lines 96 to 99\<close>
  "new_password P req u =
     (case body req ''new_password'' of
        JString pw \<Rightarrow> u\<lparr>password_hash := bcrypt_hash P pw, token := random_token P\<rparr>
      | _ \<Rightarrow> u)"

definition new_flags :: "request \<Rightarrow> user_row \<Rightarrow> user_row" where
  \<comment> \<open>lines 101 to 105\<close>
  "new_flags req u =
     (let u1 = (case body req ''is_profile_private'' of
                  JBoolean b \<Rightarrow> u\<lparr>is_profile_private := b\<rparr> | _ \<Rightarrow> u)
      in case body req ''is_history_private'' of
           JBoolean b \<Rightarrow> u1\<lparr>is_history_private := b\<rparr> | _ \<Rightarrow> u1)"

definition update_user :: "db \<Rightarrow> user_row \<Rightarrow> db" where
  \<comment> \<open>\<open>update users set username=$1, password_hash=$2, token=$3, is_profile_private=$4,
      is_history_private=$5 where id=$6\<close>\<close>
  "update_user d u =
     issue (UpdateUser (u_id u))
       (d\<lparr>users := map (\<lambda>r. if u_id r = u_id u
                               then r\<lparr>username := username u, password_hash := password_hash u,
                                      token := token u,
                                      is_profile_private := is_profile_private u,
                                      is_history_private := is_history_private u\<rparr>
                               else r) (users d)\<rparr>)"

definition patch_me :: "prims \<Rightarrow> request \<Rightarrow> db \<Rightarrow> user_row option \<Rightarrow> outcome \<times> db" where
  "patch_me P req d user =
     (case user of
        None \<Rightarrow> (Threw TypeError, d)
      | Some u \<Rightarrow>
          (case password_check P req u of
             Some out \<Rightarrow> (out, d)
           | None \<Rightarrow>
               (case new_username req d u of
                  (Inl r, d1) \<Rightarrow> (Sent r, d1)
                | (Inr u1, d1) \<Rightarrow>
                    (Sent ok_reply, update_user d1 (new_flags req (new_password P req u1))))))"

definition route_patch_me :: "prims \<Rightarrow> db \<Rightarrow> request \<Rightarrow> outcome \<times> db" where
  "route_patch_me P d req = route (getAuth d req) (patch_me P req)"

definition is_write :: "stmt \<Rightarrow> bool" where
  "is_write s = (case s of
     UpdateUser _ \<Rightarrow> True | UpdateMood _ \<Rightarrow> True | InsertMood _ \<Rightarrow> True
   | IncrementMoodSets _ \<Rightarrow> True | _ \<Rightarrow> False)"

definition reads_samples :: "stmt \<Rightarrow> bool" where
  "reads_samples s = (case s of
     SelectLatestMood _ \<Rightarrow> True | SelectHistoryAll _ _ \<Rightarrow> True
   | SelectHistoryPage _ _ _ _ _ _ \<Rightarrow> True | _ \<Rightarrow> False)"

section \<open>Sample data\<close>

definition prims0 :: prims where
  "prims0 = \<lparr>bcrypt_compare = (\<lambda>data hash. hash = ''hash:'' @ data),
     bcrypt_hash = (\<lambda>pw. ''hash:'' @ pw),
     random_token = ''fresh-token'',
     number_to_string = (\<lambda>q. ''1e+21'')\<rparr>"

definition amy :: user_row where
  "amy = \<lparr>u_id = 1, username = ''amy'', password_hash = ''hash:secret'', token = ''tok-amy'',
     is_profile_private = False, is_history_private = False, stats_mood_sets = 30\<rparr>"

definition zed :: user_row where
  "zed = \<lparr>u_id = 2, username = ''zed'', password_hash = ''hash:hunter2'', token = ''tok-zed'',
     is_profile_private = False, is_history_private = False, stats_mood_sets = 3\<rparr>"

definition bob :: user_row where
  "bob = \<lparr>u_id = 3, username = ''bob'', password_hash = ''hash:pw'', token = ''tok-bob'',
     is_profile_private = True, is_history_private = False, stats_mood_sets = 0\<rparr>"

definition row1 :: mood_row where
  "row1 = \<lparr>m_id = 1, timestamp = 1000, pleasantness = Fin (1/2), energy = Fin (- 1/4),
     user_id = 1\<rparr>"

definition row2 :: mood_row where
  "row2 = \<lparr>m_id = 2, timestamp = 2000, pleasantness = Fin (3/4), energy = Fin 0, user_id = 1\<rparr>"

definition row3 :: mood_row where
  "row3 = \<lparr>m_id = 3, timestamp = 3000, pleasantness = Fin (- 1), energy = Fin 1, user_id = 2\<rparr>"

definition db0 :: db where
  "db0 = \<lparr>users = [amy, zed, bob], mood = [row1, row2, row3], mood_seq = 4, issued = []\<rparr>"

definition row4 :: mood_row where
  \<comment> \<open>the numbers written 0.567 and -0.001\<close>
  "row4 = \<lparr>m_id = 7, timestamp = 7000, pleasantness = fl (567/1000), energy = fl (- 1/1000),
     user_id = 1\<rparr>"

definition db1 :: db where
  "db1 = db0\<lparr>mood := [row4]\<rparr>"

definition bytewise :: "string \<Rightarrow> nat list" where
  \<comment> \<open>the key of the collation that compares strings byte by byte\<close>
  "bytewise s = map of_char s"

definition request0 :: request where
  \<comment> \<open>no header, no path parameter, no query, an empty body\<close>
  "request0 = \<lparr>authorization = None, params_user = None, query = (\<lambda>k. None),
     body = (\<lambda>k. JUndefined)\<rparr>"

definition put_request :: "jsval \<Rightarrow> jsval \<Rightarrow> request" where
  \<comment> \<open>a request of amy's with the two body fields\<close>
  "put_request p e = request0\<lparr>authorization := Some ''tok-amy'',
     body := (\<lambda>k. if k = ''pleasantness'' then p else if k = ''energy'' then e else JUndefined)\<rparr>"

definition query_request :: "(string \<times> string) list \<Rightarrow> request" where
  \<comment> \<open>a request of amy's with the given query parameters\<close>
  "query_request kvs = request0\<lparr>authorization := Some ''tok-amy'', query := map_of kvs\<rparr>"

definition body_request :: "(string \<times> jsval) list \<Rightarrow> request" where
  \<comment> \<open>a request of amy's with the given body fields\<close>
  "body_request kvs = request0\<lparr>authorization := Some ''tok-amy'',
     body := (\<lambda>k. case map_of kvs k of None \<Rightarrow> JUndefined | Some v \<Rightarrow> v)\<rparr>"

section \<open>Properties of the identity resolver\<close>

lemma typeof_cases:
  "typeof v = ''number'' \<longleftrightarrow> (\<exists>n. v = JNumber n)"
  "typeof v = ''string'' \<longleftrightarrow> (\<exists>s. v = JString s)"
  "typeof v = ''boolean'' \<longleftrightarrow> (\<exists>b. v = JBoolean b)"
  by (cases v; simp)+

lemma unique_username:
  assumes "distinct (map username (users d))" "u \<in> set (users d)" "v \<in> set (users d)"
    "username v = username u"
  shows "v = u"
  using assms by (simp add: distinct_map inj_on_def)

lemma private_lookup_fails:
  assumes "distinct (map username (users d))" "u \<in> set (users d)" "is_profile_private u"
  shows "select_public_user_by_name d (username u) =
           (None, issue (SelectPublicUserByName (username u)) d)"
proof -
  have "filter (\<lambda>v. username v = username u \<and> is_profile_private v = False
                     \<and> is_history_private v = False) (users d) = []"
    using assms unique_username [OF assms(1,2)] by (auto simp: filter_empty_conv)
  then show ?thesis
    by (simp add: select_public_user_by_name_def fetch_first_def)
qed

lemma public_lookup_flags:
  assumes "select_public_user_by_name d name = (Some v, d1)"
  shows "v \<in> set (users d) \<and> username v = name \<and> \<not> is_profile_private v
           \<and> \<not> is_history_private v"
proof -
  let ?rows = "filter (\<lambda>u. username u = name \<and> is_profile_private u = False
                              \<and> is_history_private u = False) (users d)"
  from assms have "fetch_first ?rows = Some v"
    by (simp add: select_public_user_by_name_def)
  then have "v \<in> set ?rows"
    by (cases ?rows) (simp_all add: fetch_first_def)
  then show ?thesis by simp
qed

text \<open>
  Claim C4.  Usernames are unique.  A user whose profile is private is not found by
  name, whatever the history flag: the resolver answers 401 with the message
  \<open>User not found\<close> on \<open>GET /mood/:user\<close>, \<open>GET /history/all/:user\<close> and
  \<open>GET /history/:user\<close>, which is another message than \<open>Unauthorized\<close>; and a lookup by
  name that returns a user returns one with both flags false.
\<close>

theorem private_profile_unreachable_by_name:
  assumes uniq: "distinct (map username (users d))"
    and row: "u \<in> set (users d)"
    and priv: "is_profile_private u"
    and pat: "valid_username (username u)"
    and par: "params_user req = Some (username u)"
  shows "userParamOrAuth d req =
           (Respond (error_reply 401 ''User not found''),
            issue (SelectPublicUserByName (username u)) d)
       \<and> fst (route_get_mood d req) = Sent (error_reply 401 ''User not found'')
       \<and> fst (route_history_all d req) = Sent (error_reply 401 ''User not found'')
       \<and> fst (route_history now d req) = Sent (error_reply 401 ''User not found'')
       \<and> error_reply 401 ''User not found'' \<noteq> error_reply 401 ''Unauthorized''
       \<and> (\<forall>name v d1. select_public_user_by_name d name = (Some v, d1)
             \<longrightarrow> \<not> is_profile_private v \<and> \<not> is_history_private v)"
proof -
  from pat have ne: "username u \<noteq> []"
    by (auto simp: valid_username_def)
  have res: "userParamOrAuth d req =
           (Respond (error_reply 401 ''User not found''),
            issue (SelectPublicUserByName (username u)) d)"
    using par pat ne private_lookup_fails [OF uniq row priv]
    by (simp add: userParamOrAuth_def resolved_def truthy_str_def)
  have msg: "error_reply 401 ''User not found'' \<noteq> error_reply 401 ''Unauthorized''"
    by (simp add: error_reply_def json_reply_def)
  show ?thesis
    using res msg public_lookup_flags
    by (auto simp: route_get_mood_def route_history_all_def route_history_def route_def)
qed

theorem private_profile_unreachable_by_name_witness:
  "distinct (map username (users db0)) \<and> bob \<in> set (users db0) \<and> is_profile_private bob
     \<and> \<not> is_history_private bob \<and> valid_username (username bob)
     \<and> fst (route_get_mood db0 (request0\<lparr>params_user := Some ''bob''\<rparr>))
           = Sent (error_reply 401 ''User not found'')
     \<and> fst (route_history_all db0 (request0\<lparr>params_user := Some ''bob''\<rparr>))
           = Sent (error_reply 401 ''User not found'')
     \<and> fst (route_history 5000 db0 (request0\<lparr>params_user := Some ''bob''\<rparr>))
           = Sent (error_reply 401 ''User not found'')"
proof -
  have uniq: "distinct (map username (users db0))"
    by (simp add: db0_def amy_def zed_def bob_def)
  have row: "bob \<in> set (users db0)"
    by (simp add: db0_def)
  have priv: "is_profile_private bob" and hist: "\<not> is_history_private bob"
    by (simp_all add: bob_def)
  have pat: "valid_username (username bob)"
    by (simp add: bob_def valid_username_def username_char_def)
  have par: "params_user (request0\<lparr>params_user := Some ''bob''\<rparr>) = Some (username bob)"
    by (simp add: bob_def)
  from private_profile_unreachable_by_name [OF uniq row priv pat par, of 5000]
  show ?thesis using uniq row priv hist pat by simp
qed

lemma fetch_first_mem:
  assumes "fetch_first rows = Some r"
  shows "r \<in> set rows"
  using assms by (cases rows) (simp_all add: fetch_first_def)

lemma resolver_outcomes:
  assumes "userParamOrAuth d req = (s, d1)"
  shows "s = Respond (error_reply 401 ''User not found'')
       \<or> s = Respond (error_reply 401 ''Unauthorized'')
       \<or> (\<exists>u. s = Next (Some u) \<and> u \<in> set (users d))
       \<or> (s = Next None
           \<and> (\<exists>name. params_user req = Some name \<and> name \<noteq> [] \<and> \<not> valid_username name))"
proof -
  have r: "resolved req (v, d2) = (s, d1) \<Longrightarrow> (v = None \<or> (\<exists>u. v = Some u \<and> u \<in> set (users d)))
      \<Longrightarrow> s = Respond (error_reply 401 ''User not found'')
       \<or> s = Respond (error_reply 401 ''Unauthorized'')
       \<or> (\<exists>u. s = Next (Some u) \<and> u \<in> set (users d))" for v d2
    by (auto simp: resolved_def)
  show ?thesis
  proof (cases "truthy_str (params_user req)")
    case True
    then obtain name where n: "params_user req = Some name" "name \<noteq> []"
      by (auto simp: truthy_str_def split: option.splits)
    show ?thesis
    proof (cases "valid_username name")
      case False
      with assms True n show ?thesis
        by (simp add: userParamOrAuth_def)
    next
      case valid: True
      obtain v d2 where sel: "select_public_user_by_name d name = (v, d2)"
        by (cases "select_public_user_by_name d name")
      then have "v = None \<or> (\<exists>u. v = Some u \<and> u \<in> set (users d))"
        by (cases v) (auto simp: select_public_user_by_name_def dest: fetch_first_mem)
      moreover from assms True n valid sel have "resolved req (v, d2) = (s, d1)"
        by (simp add: userParamOrAuth_def)
      ultimately show ?thesis
        using r by blast
    qed
  next
    case False
    note noparam = this
    show ?thesis
    proof (cases "truthy_str (authorization req)")
      case True
      then obtain t where t: "authorization req = Some t"
        by (auto simp: truthy_str_def split: option.splits)
      obtain v d2 where sel: "select_user_by_token d t = (v, d2)"
        by (cases "select_user_by_token d t")
      then have "v = None \<or> (\<exists>u. v = Some u \<and> u \<in> set (users d))"
        by (cases v) (auto simp: select_user_by_token_def dest: fetch_first_mem)
      moreover from assms noparam True t sel have "resolved req (v, d2) = (s, d1)"
        by (simp add: userParamOrAuth_def)
      ultimately show ?thesis
        using r by blast
    next
      case False
      with assms noparam have "resolved req (None, d) = (s, d1)"
        by (simp add: userParamOrAuth_def)
      with r [of None d] show ?thesis
        by blast
    qed
  qed
qed

text \<open>
  Claim C2.  A path parameter that does not match the username pattern makes
  \<open>userParamOrAuth\<close> call \<open>next()\<close> at line 29 with \<open>req.user\<close> unset, whatever the
  \<open>Authorization\<close> header: no 401 is sent, the handler runs and throws on
  \<open>req.user.id\<close> (or \<open>req.user.stats_mood_sets\<close>), and no statement has been issued.
  (By \<open>resolver_outcomes\<close> it is the only request that reaches a handler without a
  subject: every other failure to resolve is answered 401.)
\<close>

theorem malformed_username_reaches_handler:
  "userParamOrAuth d (request0\<lparr>authorization := a, params_user := Some ''AB''\<rparr>) = (Next None, d)
   \<and> route_get_mood d (request0\<lparr>authorization := a, params_user := Some ''AB''\<rparr>)
        = (Threw TypeError, d)
   \<and> route_history_all d (request0\<lparr>authorization := a, params_user := Some ''AB''\<rparr>)
        = (Threw TypeError, d)
   \<and> route_history now d (request0\<lparr>authorization := a, params_user := Some ''AB''\<rparr>)
        = (Threw TypeError, d)"
proof -
  let ?req = "request0\<lparr>authorization := a, params_user := Some ''AB''\<rparr>"
  have bad: "\<not> valid_username ''AB''"
    by (simp add: valid_username_def)
  have res: "userParamOrAuth d ?req = (Next None, d)"
    using bad by (simp add: userParamOrAuth_def truthy_str_def)
  have nosort: "query ?req ''sort'' = None"
    by (simp add: request0_def)
  show ?thesis
    using res nosort
    by (simp add: route_get_mood_def route_history_all_def route_history_def route_def
        get_mood_def history_all_def history_def truthy_str_def sort_direction_def)
qed

theorem malformed_username_reaches_handler_witness:
  "userParamOrAuth db0 (request0\<lparr>authorization := Some ''tok-amy'', params_user := Some ''AB''\<rparr>)
     = (Next None, db0)
   \<and> route_get_mood db0 (request0\<lparr>authorization := Some ''tok-amy'', params_user := Some ''AB''\<rparr>)
     = (Threw TypeError, db0)
   \<and> route_history 5000 db0
       (request0\<lparr>authorization := Some ''tok-amy'', params_user := Some ''AB''\<rparr>)
     = (Threw TypeError, db0)"
  using malformed_username_reaches_handler [of db0 "Some ''tok-amy''" 5000] by simp

section \<open>Properties of the mood update engine\<close>

lemma users_issue [simp]: "users (issue s d) = users d"
  by (simp add: issue_def)

lemma mood_issue [simp]: "mood (issue s d) = mood d"
  by (simp add: issue_def)

lemma mood_seq_issue [simp]: "mood_seq (issue s d) = mood_seq d"
  by (simp add: issue_def)

lemma issued_issue [simp]: "issued (issue s d) = issued d @ [s]"
  by (simp add: issue_def)

lemma getAuth_token:
  assumes "authorization req = Some t" "t \<noteq> []"
    and "fetch_first (filter (\<lambda>v. token v = t) (users d)) = Some u"
  shows "getAuth d req = (Next (Some u), issue (SelectUserByToken t) d)"
  using assms by (simp add: getAuth_def select_user_by_token_def)

lemma getAuth_never_unset: "getAuth d req \<noteq> (Next None, d1)"
  by (auto simp: getAuth_def Let_def split: option.splits prod.splits)

lemma snd_fetchMood: "snd (fetchMood d uid) = issue (SelectLatestMood uid) d"
  by (simp add: fetchMood_def split: option.splits)

lemma fst_fetchMood_issue [simp]: "fst (fetchMood (issue s d) uid) = fst (fetchMood d uid)"
  by (simp add: fetchMood_def split: option.splits)

lemma last_of_sorted:
  assumes "rev (sort_key f xs) = r # rest"
  shows "r \<in> set xs \<and> (\<forall>x\<in>set xs. f x \<le> f r)"
proof -
  from assms have eq: "sort_key f xs = rev rest @ [r]"
    by (metis rev.simps(2) rev_rev_ident)
  have "sorted (map f (sort_key f xs))"
    by (rule sorted_sort_key)
  with eq have le: "\<forall>x\<in>set (rev rest). f x \<le> f r"
    by (simp add: sorted_append)
  have "set (sort_key f xs) = set xs"
    by simp
  with eq have mem: "set xs = insert r (set rest)"
    by auto
  from le mem show ?thesis by auto
qed

lemma fetchMood_none:
  assumes "\<forall>r\<in>set (mood d). user_id r \<noteq> uid"
  shows "fst (fetchMood d uid) = default_mood"
proof -
  from assms have "filter (\<lambda>r. user_id r = uid) (mood d) = []"
    by (simp add: filter_empty_conv)
  then show ?thesis
    by (simp add: fetchMood_def fetch_first_def)
qed

lemma fetchMood_latest:
  assumes "r \<in> set (mood d)" "user_id r = uid"
  shows "\<exists>l\<in>set (mood d). user_id l = uid \<and> m_id r \<le> m_id l
           \<and> fst (fetchMood d uid) =
               \<lparr>s_id = Some (m_id l), s_timestamp = timestamp l,
                s_pleasantness = pleasantness l, s_energy = energy l\<rparr>"
proof -
  let ?rows = "filter (\<lambda>r. user_id r = uid) (mood d)"
  from assms have mem: "r \<in> set ?rows" by simp
  then have "rev (sort_key m_id ?rows) \<noteq> []"
    by (metis empty_iff list.set(1) rev_is_Nil_conv set_sort)
  then obtain l rest where lr: "rev (sort_key m_id ?rows) = l # rest"
    by (cases "rev (sort_key m_id ?rows)") auto
  from last_of_sorted [OF lr] mem have "l \<in> set ?rows" "m_id r \<le> m_id l"
    by auto
  moreover from lr have "fst (fetchMood d uid) =
      \<lparr>s_id = Some (m_id l), s_timestamp = timestamp l,
       s_pleasantness = pleasantness l, s_energy = energy l\<rparr>"
    by (simp add: fetchMood_def fetch_first_def)
  ultimately show ?thesis by auto
qed

lemma put_mood_passes:
  assumes "body req ''pleasantness'' = JNumber p" "\<not> num_gt (math_abs p) (Fin 1)"
    and "body req ''energy'' = JNumber e" "\<not> num_gt (math_abs e) (Fin 1)"
  shows "put_mood now1 now2 req d (Some u) =
     (Sent ok_reply,
      if s_timestamp (fst (fetchMood d (u_id u))) + 10000 > now1
      then update_mood (issue (SelectLatestMood (u_id u)) d) p e now2
             (s_id (fst (fetchMood d (u_id u))))
      else increment_mood_sets
             (insert_mood (issue (SelectLatestMood (u_id u)) d) now2 p e (u_id u))
             (u_id u))"
proof -
  obtain m d1 where f: "fetchMood d (u_id u) = (m, d1)"
    by (cases "fetchMood d (u_id u)")
  with snd_fetchMood [of d "u_id u"] have d1: "d1 = issue (SelectLatestMood (u_id u)) d"
    by simp
  from assms f d1 show ?thesis
    by (simp add: put_mood_def)
qed

lemma put_mood_accepts:
  assumes "body req ''pleasantness'' = JNumber (Fin p)" "\<bar>p\<bar> \<le> 1"
    and "body req ''energy'' = JNumber (Fin e)" "\<bar>e\<bar> \<le> 1"
  shows "put_mood now1 now2 req d (Some u) =
     (Sent ok_reply,
      if s_timestamp (fst (fetchMood d (u_id u))) + 10000 > now1
      then update_mood (issue (SelectLatestMood (u_id u)) d) (Fin p) (Fin e) now2
             (s_id (fst (fetchMood d (u_id u))))
      else increment_mood_sets
             (insert_mood (issue (SelectLatestMood (u_id u)) d) now2 (Fin p) (Fin e) (u_id u))
             (u_id u))"
  using assms by (intro put_mood_passes) simp_all

text \<open>
  Claim C1.  A \<open>PUT /mood\<close> of an authenticated subject with finite values of absolute
  value at most 1 is answered \<open>ok\<close>.  The latest sample is the subject's sample of highest
  identifier, or the synthetic one (timestamp 0, no identifier) when the subject has
  none.  When its timestamp plus 10000 exceeds the clock, the rows carrying its
  identifier get the new pleasantness, energy and timestamp, no row is added and the
  users table (so every \<open>stats_mood_sets\<close>) is unchanged.  Otherwise one row with the
  current timestamp is appended and the subject's \<open>stats_mood_sets\<close> grows by 1.
\<close>

theorem put_mood_coalescing:
  assumes tok: "authorization req = Some t" "t \<noteq> []"
    and usr: "fetch_first (filter (\<lambda>v. token v = t) (users d)) = Some u"
    and p: "body req ''pleasantness'' = JNumber (Fin p)" "\<bar>p\<bar> \<le> 1"
    and e: "body req ''energy'' = JNumber (Fin e)" "\<bar>e\<bar> \<le> 1"
    and latest: "latest = fst (fetchMood d (u_id u))"
    and res: "route_put_mood now1 now2 d req = (out, d')"
  shows "out = Sent ok_reply
    \<and> (\<forall>r\<in>set (mood d). user_id r = u_id u \<longrightarrow>
          (\<exists>l\<in>set (mood d). user_id l = u_id u \<and> m_id r \<le> m_id l
             \<and> s_id latest = Some (m_id l) \<and> s_timestamp latest = timestamp l))
    \<and> ((\<forall>r\<in>set (mood d). user_id r \<noteq> u_id u) \<longrightarrow>
          s_id latest = None \<and> s_timestamp latest = 0)
    \<and> (s_timestamp latest + 10000 > now1 \<longrightarrow>
          mood d' = map (\<lambda>r. if Some (m_id r) = s_id latest
                              then r\<lparr>pleasantness := Fin p, energy := Fin e, timestamp := now2\<rparr>
                              else r) (mood d)
          \<and> users d' = users d)
    \<and> (\<not> s_timestamp latest + 10000 > now1 \<longrightarrow>
          mood d' = mood d @ [\<lparr>m_id = mood_seq d, timestamp = now2, pleasantness = Fin p,
                                 energy = Fin e, user_id = u_id u\<rparr>]
          \<and> users d' = map (\<lambda>v. if u_id v = u_id u
                                  then v\<lparr>stats_mood_sets := stats_mood_sets v + 1\<rparr>
                                  else v) (users d))"
proof -
  have run: "route_put_mood now1 now2 d req =
      put_mood now1 now2 req (issue (SelectUserByToken t) d) (Some u)"
    using getAuth_token [OF tok usr] by (simp add: route_put_mood_def route_def)
  note acc = put_mood_accepts [OF p e, of now1 now2 "issue (SelectUserByToken t) d" u]
  from res run acc have out: "out = Sent ok_reply"
    by simp
  have highest: "\<forall>r\<in>set (mood d). user_id r = u_id u \<longrightarrow>
          (\<exists>l\<in>set (mood d). user_id l = u_id u \<and> m_id r \<le> m_id l
             \<and> s_id latest = Some (m_id l) \<and> s_timestamp latest = timestamp l)"
  proof (intro ballI impI)
    fix r assume "r \<in> set (mood d)" "user_id r = u_id u"
    from fetchMood_latest [OF this] latest
    show "\<exists>l\<in>set (mood d). user_id l = u_id u \<and> m_id r \<le> m_id l
             \<and> s_id latest = Some (m_id l) \<and> s_timestamp latest = timestamp l"
      by auto
  qed
  have none: "(\<forall>r\<in>set (mood d). user_id r \<noteq> u_id u) \<longrightarrow>
          s_id latest = None \<and> s_timestamp latest = 0"
    using fetchMood_none [of d "u_id u"] latest by (auto simp: default_mood_def)
  have upd: "s_timestamp latest + 10000 > now1 \<longrightarrow>
          mood d' = map (\<lambda>r. if Some (m_id r) = s_id latest
                              then r\<lparr>pleasantness := Fin p, energy := Fin e, timestamp := now2\<rparr>
                              else r) (mood d)
          \<and> users d' = users d"
    using res run acc latest by (auto simp: update_mood_def)
  have ins: "\<not> s_timestamp latest + 10000 > now1 \<longrightarrow>
          mood d' = mood d @ [\<lparr>m_id = mood_seq d, timestamp = now2, pleasantness = Fin p,
                                 energy = Fin e, user_id = u_id u\<rparr>]
          \<and> users d' = map (\<lambda>v. if u_id v = u_id u
                                  then v\<lparr>stats_mood_sets := stats_mood_sets v + 1\<rparr>
                                  else v) (users d)"
    using res run acc latest by (auto simp: increment_mood_sets_def insert_mood_def)
  from out highest none upd ins show ?thesis by blast
qed
lemma latest_of_amy:
  "fst (fetchMood db0 (u_id amy)) =
     \<lparr>s_id = Some 2, s_timestamp = 2000, s_pleasantness = Fin (3/4), s_energy = Fin 0\<rparr>"
  by (simp add: fetchMood_def db0_def amy_def row1_def row2_def row3_def fetch_first_def)

lemma amy_by_token:
  "fetch_first (filter (\<lambda>v. token v = ''tok-amy'') (users db0)) = Some amy"
  by (simp add: db0_def amy_def zed_def bob_def fetch_first_def)

theorem put_mood_coalescing_witness:
  "fst (route_put_mood 5000 5001 db0 (put_request (JNumber (Fin (1/4))) (JNumber (Fin (- 1/2)))))
     = Sent ok_reply
   \<and> mood (snd (route_put_mood 5000 5001 db0
               (put_request (JNumber (Fin (1/4))) (JNumber (Fin (- 1/2))))))
     = [row1, row2\<lparr>pleasantness := Fin (1/4), energy := Fin (- 1/2), timestamp := 5001\<rparr>, row3]
   \<and> users (snd (route_put_mood 5000 5001 db0
               (put_request (JNumber (Fin (1/4))) (JNumber (Fin (- 1/2))))))
     = users db0
   \<and> mood (snd (route_put_mood 20000 20001 db0
               (put_request (JNumber (Fin (1/4))) (JNumber (Fin (- 1/2))))))
     = mood db0 @ [\<lparr>m_id = 4, timestamp = 20001, pleasantness = Fin (1/4),
                     energy = Fin (- 1/2), user_id = 1\<rparr>]
   \<and> map stats_mood_sets (users (snd (route_put_mood 20000 20001 db0
               (put_request (JNumber (Fin (1/4))) (JNumber (Fin (- 1/2)))))))
     = [31, 3, 0]"
proof -
  let ?req = "put_request (JNumber (Fin (1/4))) (JNumber (Fin (- 1/2)))"
  have tok: "authorization ?req = Some ''tok-amy''" "''tok-amy'' \<noteq> []"
    by (simp_all add: put_request_def)
  have p: "body ?req ''pleasantness'' = JNumber (Fin (1/4))" "\<bar>1/4 :: rat\<bar> \<le> 1"
    by (simp_all add: put_request_def)
  have e: "body ?req ''energy'' = JNumber (Fin (- 1/2))" "\<bar>- 1/2 :: rat\<bar> \<le> 1"
    by (simp_all add: put_request_def)
  note early = put_mood_coalescing [OF tok amy_by_token p e refl surjective_pairing,
      of 5000 5001]
  note late = put_mood_coalescing [OF tok amy_by_token p e refl surjective_pairing,
      of 20000 20001]
  have ids: "u_id amy = 1" "mood_seq db0 = 4"
    by (simp_all add: amy_def db0_def)
  from early late show ?thesis
    unfolding latest_of_amy
    by (simp add: ids db0_def amy_def zed_def bob_def row1_def row2_def row3_def)
qed
lemma is_write_simps [simp]:
  "is_write (UpdateUser i)" "is_write (UpdateMood j)" "is_write (InsertMood i)"
  "is_write (IncrementMoodSets i)" "\<not> is_write (SelectUserByToken t)"
  "\<not> is_write (SelectPublicUserByName n)" "\<not> is_write (SelectUsernameTaken n)"
  "\<not> is_write (SelectLatestMood i)" "\<not> is_write (SelectHistoryAll i s)"
  "\<not> is_write (SelectHistoryPage i a b s l k)" "\<not> is_write (SelectPublicUsers ns)"
  by (simp_all add: is_write_def)

lemma getAuth_reads_only:
  assumes "getAuth d req = (s, d1)"
  shows "users d1 = users d \<and> mood d1 = mood d \<and> mood_seq d1 = mood_seq d
       \<and> filter is_write (issued d1) = filter is_write (issued d)
       \<and> (s = Respond (error_reply 401 ''Unauthorized'') \<or> (\<exists>u. s = Next (Some u)))"
  using assms
  by (auto simp: getAuth_def select_user_by_token_def Let_def
      split: option.splits if_splits prod.splits)




lemma json_carried_cases:
  "json_carried v \<longleftrightarrow>
     unit_value v \<or> (\<exists>q. v = JNumber (Fin q) \<and> 1 < \<bar>q\<bar>) \<or> v = JNumber PInf \<or> v = JNumber NInf
     \<or> typeof v \<noteq> ''number''"
proof (cases v)
  case (JNumber n)
  then show ?thesis
    by (cases n) (auto simp: json_carried_def unit_value_def)
qed (simp_all add: json_carried_def unit_value_def)



text \<open>
  The one case left is a \<open>NaN\<close> beside a valid number or beside another \<open>NaN\<close>, which no
  JSON text produces: \<open>typeof NaN\<close> is \<open>number\<close> and \<open>Math.abs(NaN) > 1\<close> is false, so
  the test of lines 155 to 160 would let it pass.
\<close>

lemma nan_passes_the_test:
  "fst (put_mood now1 now2 (put_request (JNumber NaN) (JNumber (Fin 0))) d (Some u))
     = Sent ok_reply"
proof -
  have p: "body (put_request (JNumber NaN) (JNumber (Fin 0))) ''pleasantness'' = JNumber NaN"
    "\<not> num_gt (math_abs NaN) (Fin 1)"
    by (simp_all add: put_request_def)
  have e: "body (put_request (JNumber NaN) (JNumber (Fin 0))) ''energy'' = JNumber (Fin 0)"
    "\<not> num_gt (math_abs (Fin 0)) (Fin 1)"
    by (simp_all add: put_request_def)
  from put_mood_passes [OF p e, of now1 now2 d u] show ?thesis
    by simp
qed

section \<open>Properties of the history query engine\<close>

lemma reads_samples_simps [simp]:
  "reads_samples (SelectLatestMood i)" "reads_samples (SelectHistoryAll i s)"
  "reads_samples (SelectHistoryPage i a b s l k)"
  "\<not> reads_samples (UpdateUser i)" "\<not> reads_samples (UpdateMood j)"
  "\<not> reads_samples (InsertMood i)" "\<not> reads_samples (IncrementMoodSets i)"
  "\<not> reads_samples (SelectUserByToken t)" "\<not> reads_samples (SelectPublicUserByName n)"
  "\<not> reads_samples (SelectUsernameTaken n)" "\<not> reads_samples (SelectPublicUsers ns)"
  by (simp_all add: reads_samples_def)

lemma userParamOrAuth_reads_only:
  assumes "userParamOrAuth d req = (s, d1)"
  shows "users d1 = users d \<and> mood d1 = mood d \<and> mood_seq d1 = mood_seq d
       \<and> filter is_write (issued d1) = filter is_write (issued d)
       \<and> filter reads_samples (issued d1) = filter reads_samples (issued d)"
  using assms
  by (auto simp: userParamOrAuth_def resolved_def select_user_by_token_def
      select_public_user_by_name_def split: option.splits if_splits)

lemma sort_direction_text:
  assumes "\<not> (truthy_str (query req ''sort'') \<and> sort_direction (query req ''sort'') = None)"
  shows "(case sort_direction (query req ''sort'') of None \<Rightarrow> ''desc'' | Some s \<Rightarrow> s)
           \<in> {''asc'', ''desc''}"
  by (simp add: sort_direction_def)

lemma order_by_id_rows:
  assumes "dir \<in> {''asc'', ''desc''}"
  shows "\<exists>rows. order_by_id dir xs = Inr rows \<and> set rows = set xs"
  using assms by (auto simp: order_by_id_def)

lemma history_valid:
  assumes lim: "limit = or_default (parseInt (query req ''limit'')) 25" "1 \<le> limit" "limit \<le> 100"
    and srt: "\<not> (truthy_str (query req ''sort'') \<and> sort_direction (query req ''sort'') = None)"
    and rng: "after = or_default (parseInt (query req ''after'')) 0"
      "before = or_default (parseInt (query req ''before'')) now"
      "0 \<le> after" "after < before" "isSafeInteger before" "isSafeInteger after"
    and pg: "page = or_default (parseInt (query req ''page'')) 0"
  shows "history now req d (Some u) =
     (if page < 0 \<or> (page \<noteq> 0 \<and> page \<ge> stats_mood_sets u div limit)
      then (Sent (page_reply [] (stats_mood_sets u) (stats_mood_sets u div limit)), d)
      else (case select_history_page d (u_id u) after before
                   (case sort_direction (query req ''sort'') of None \<Rightarrow> ''desc'' | Some s \<Rightarrow> s)
                   limit (page * limit) of
              (Inl err, d1) \<Rightarrow> (Threw err, d1)
            | (Inr rows, d1) \<Rightarrow>
                (Sent (page_reply (map format_entry rows) (stats_mood_sets u)
                         (stats_mood_sets u div limit)), d1)))"
proof -
  from lim have a: "(or_default (parseInt (query req ''limit'')) 25 < 1
      \<or> 100 < or_default (parseInt (query req ''limit'')) 25) = False"
    by simp
  from srt have s: "(truthy_str (query req ''sort'')
      \<and> sort_direction (query req ''sort'') = None) = False"
    by blast
  from rng have b: "(or_default (parseInt (query req ''after'')) 0 < 0
      \<or> or_default (parseInt (query req ''before'')) now
           \<le> or_default (parseInt (query req ''after'')) 0
      \<or> \<not> isSafeInteger (or_default (parseInt (query req ''before'')) now)
      \<or> \<not> isSafeInteger (or_default (parseInt (query req ''after'')) 0)) = False"
    by simp
  show ?thesis
    unfolding history_def Let_def lim(1) rng(1,2) pg
    by (simp only: a b s if_False option.case)
qed

text \<open>
  Claim C3.  For a request on \<open>GET /history/:user?\<close> whose subject is resolved and whose
  limit, sort and time range pass the checks of lines 275 to 294, the answer carries
  \<open>total = stats_mood_sets\<close> and \<open>pages = \<lfloor>stats_mood_sets / limit\<rfloor>\<close>; and when the page
  is negative, or nonzero and at least \<open>pages\<close>, the entries are empty and no statement
  is issued after the resolver's lookup, so no sample is read.
\<close>

theorem history_page_short_circuit:
  assumes res: "userParamOrAuth d req = (Next (Some u), d1)"
    and lim: "limit = or_default (parseInt (query req ''limit'')) 25" "1 \<le> limit" "limit \<le> 100"
    and srt: "\<not> (truthy_str (query req ''sort'') \<and> sort_direction (query req ''sort'') = None)"
    and rng: "after = or_default (parseInt (query req ''after'')) 0"
      "before = or_default (parseInt (query req ''before'')) now"
      "0 \<le> after" "after < before" "isSafeInteger before" "isSafeInteger after"
    and pg: "page = or_default (parseInt (query req ''page'')) 0"
  shows "(\<exists>es. fst (route_history now d req) =
            Sent (page_reply es (stats_mood_sets u) (stats_mood_sets u div limit)))
       \<and> (page < 0 \<or> (page \<noteq> 0 \<and> page \<ge> stats_mood_sets u div limit) \<longrightarrow>
            route_history now d req =
              (Sent (page_reply [] (stats_mood_sets u) (stats_mood_sets u div limit)), d1)
            \<and> filter reads_samples (issued (snd (route_history now d req)))
                = filter reads_samples (issued d))"
proof -
  have run: "route_history now d req = history now req d1 (Some u)"
    using res by (simp add: route_history_def route_def)
  note h = history_valid [OF lim srt rng pg, of d1 u]
  obtain rows where rows: "order_by_id
      (case sort_direction (query req ''sort'') of None \<Rightarrow> ''desc'' | Some s \<Rightarrow> s)
      (filter (\<lambda>r. user_id r = u_id u \<and> after < timestamp r \<and> timestamp r < before) (mood d1))
      = Inr rows"
    using order_by_id_rows [OF sort_direction_text [OF srt]] by blast
  have all: "\<exists>es. fst (route_history now d req) =
            Sent (page_reply es (stats_mood_sets u) (stats_mood_sets u div limit))"
    unfolding run h by (auto simp: select_history_page_def rows)
  have short: "route_history now d req =
              (Sent (page_reply [] (stats_mood_sets u) (stats_mood_sets u div limit)), d1)
            \<and> filter reads_samples (issued (snd (route_history now d req)))
                = filter reads_samples (issued d)"
    if "page < 0 \<or> (page \<noteq> 0 \<and> page \<ge> stats_mood_sets u div limit)"
    using that userParamOrAuth_reads_only [OF res] unfolding run h by auto
  from all short show ?thesis by blast
qed

lemma parse_samples:
  "parseInt (Some ''10'') = Some 10" "parseInt (Some ''3'') = Some 3"
  "parseInt (Some ''-1'') = Some (- 1)" "parseInt (Some ''101'') = Some 101"
  "parseInt (Some ''0'') = Some 0" "parseInt (Some ''5'') = Some 5"
  "parseInt None = None"
  by code_simp+

lemma parse_skips_white_space:
  \<comment> \<open>a no-break space (U+00A0), a line separator (U+2028) and a tab before the digits\<close>
  "parseInt (Some ([CHR 0xC2, CHR 0xA0] @ ''10'')) = Some 10"
  "parseInt (Some ([CHR 0xE2, CHR 0x80, CHR 0xA8, CHR 0x09] @ ''7x'')) = Some 7"
  "parseInt (Some ([CHR 0xC2] @ ''10'')) = None"
  by code_simp+

lemma amy_resolved:
  "userParamOrAuth db0 (query_request kvs) =
     (Next (Some amy), issue (SelectUserByToken ''tok-amy'') db0)"
  using amy_by_token
  by (simp add: userParamOrAuth_def resolved_def select_user_by_token_def query_request_def
      request0_def truthy_str_def)

theorem history_page_short_circuit_witness:
  "stats_mood_sets amy = 30
   \<and> route_history 5000 db0 (query_request [(''limit'', ''10''), (''page'', ''3'')])
       = (Sent (page_reply [] 30 3), issue (SelectUserByToken ''tok-amy'') db0)
   \<and> route_history 5000 db0 (query_request [(''limit'', ''10''), (''page'', ''-1'')])
       = (Sent (page_reply [] 30 3), issue (SelectUserByToken ''tok-amy'') db0)
   \<and> field (page_reply [] 30 3) ''entries'' = Some (JArr [])
   \<and> field (page_reply [] 30 3) ''total'' = Some (JInt 30)
   \<and> field (page_reply [] 30 3) ''pages'' = Some (JInt 3)"
proof -
  let ?r3 = "query_request [(''limit'', ''10''), (''page'', ''3'')]"
  let ?rm = "query_request [(''limit'', ''10''), (''page'', ''-1'')]"
  have q3: "query ?r3 ''limit'' = Some ''10''" "query ?r3 ''page'' = Some ''3''"
    "query ?r3 ''sort'' = None" "query ?r3 ''after'' = None" "query ?r3 ''before'' = None"
    by (simp_all add: query_request_def)
  have qm: "query ?rm ''limit'' = Some ''10''" "query ?rm ''page'' = Some ''-1''"
    "query ?rm ''sort'' = None" "query ?rm ''after'' = None" "query ?rm ''before'' = None"
    by (simp_all add: query_request_def)
  have st: "stats_mood_sets amy = 30"
    by (simp add: amy_def)
  have t3: "route_history 5000 db0 ?r3
       = (Sent (page_reply [] 30 3), issue (SelectUserByToken ''tok-amy'') db0)"
    using history_page_short_circuit [OF amy_resolved [of "[(''limit'', ''10''), (''page'', ''3'')]"]
        refl _ _ _ refl refl _ _ _ _ refl, where now = 5000]
    by (simp add: q3 parse_samples or_default_def truthy_str_def isSafeInteger_def st)
  have tm: "route_history 5000 db0 ?rm
       = (Sent (page_reply [] 30 3), issue (SelectUserByToken ''tok-amy'') db0)"
    using history_page_short_circuit [OF amy_resolved [of "[(''limit'', ''10''), (''page'', ''-1'')]"]
        refl _ _ _ refl refl _ _ _ _ refl, where now = 5000]
    by (simp add: qm parse_samples or_default_def truthy_str_def isSafeInteger_def st)
  show ?thesis
    using t3 tm st by (simp add: field_def page_reply_def json_reply_def)
qed

lemma history_all_sorted:
  assumes "query req ''sort'' = Some s" "s = ''newest'' \<or> s = ''oldest''"
  shows "history_all req d (Some u) =
     (Sent (json_reply 200 [(''status'', JStr ''ok''),
        (''entries'', JArr (map format_entry
           ((if s = ''newest'' then rev else id)
              (sort_key m_id (filter (\<lambda>r. user_id r = u_id u) (mood d))))))]),
      issue (SelectHistoryAll (u_id u) (if s = ''newest'' then ''desc'' else ''asc'')) d)"
  using assms
  by (auto simp: history_all_def sort_direction_def interpolate_def select_history_all_def
      order_by_id_def truthy_str_def)

lemma history_all_invalid_sort:
  assumes "query req ''sort'' = Some s" "s \<noteq> []" "s \<noteq> ''newest''" "s \<noteq> ''oldest''"
  shows "history_all req d user = (Sent sort_error, d)"
  using assms by (simp add: history_all_def sort_direction_def truthy_str_def)

text \<open>
  Claim C5.  Without a \<open>sort\<close> parameter the handler of \<open>GET /history/all/:user?\<close>
  leaves \<open>sort\<close> at \<open>null\<close> and writes it into the statement, which then ends in
  \<open>order by id null\<close>: the engine rejects it and the request ends in an exception, not
  in the subject's samples.  (With \<open>newest\<close> and \<open>oldest\<close> the samples come back by
  descending and ascending identifier, and any other non-empty value is answered with
  the \<open>sort\<close> error: \<open>history_all_sorted\<close>, \<open>history_all_invalid_sort\<close>.)
\<close>

theorem full_history_without_sort_throws:
  "history_all (query_request []) d (Some u) =
     (Threw DbSyntaxError, issue (SelectHistoryAll (u_id u) ''null'') d)
   \<and> route_history_all db0 (query_request []) =
     (Threw DbSyntaxError,
      issue (SelectHistoryAll 1 ''null'') (issue (SelectUserByToken ''tok-amy'') db0))"
proof -
  have q: "query (query_request []) ''sort'' = None"
    by (simp add: query_request_def)
  have h: "history_all (query_request []) d (Some u) =
     (Threw DbSyntaxError, issue (SelectHistoryAll (u_id u) ''null'') d)" for d u
    by (simp add: history_all_def q sort_direction_def truthy_str_def interpolate_def
        select_history_all_def order_by_id_def)
  have "u_id amy = 1"
    by (simp add: amy_def)
  with h [of "issue (SelectUserByToken ''tok-amy'') db0" amy] h [of d u]
  show ?thesis
    by (simp add: route_history_all_def route_def amy_resolved)
qed

theorem full_history_without_sort_throws_witness:
  "history_all (query_request []) db0 (Some amy) =
     (Threw DbSyntaxError, issue (SelectHistoryAll 1 ''null'') db0)
   \<and> fst (route_history_all db0 (query_request [])) = Threw DbSyntaxError"
  using full_history_without_sort_throws [of db0 amy] by (simp add: amy_def)

text \<open>
  Claim C8.  The three validation errors of \<open>GET /history/:user?\<close> are sent with
  \<open>res.json\<close> alone, so with HTTP status 200, not 400; and the error for the limit has
  no \<open>message\<close> field, the text being stored under \<open>messge\<close>.  Each carries
  \<open>status: "error"\<close>.  A limit of 0 is no error at all: \<open>parseInt("0") || 25\<close> is 25.
\<close>

theorem history_validation_errors_are_200:
  "history now (query_request [(''limit'', ''101'')]) d (Some u) = (Sent limit_error, d)
   \<and> http_status limit_error = 200
   \<and> field limit_error ''status'' = Some (JStr ''error'')
   \<and> field limit_error ''message'' = None
   \<and> history now (query_request [(''sort'', ''sideways'')]) d (Some u) = (Sent sort_error, d)
   \<and> http_status sort_error = 200
   \<and> field sort_error ''status'' = Some (JStr ''error'')
   \<and> history now (query_request [(''after'', ''5''), (''before'', ''3'')]) d (Some u)
        = (Sent range_error, d)
   \<and> http_status range_error = 200
   \<and> field range_error ''status'' = Some (JStr ''error'')
   \<and> (\<exists>es. fst (history 5000 (query_request [(''limit'', ''0'')]) d (Some u))
              = Sent (page_reply es (stats_mood_sets u) (stats_mood_sets u div 25)))"
proof -
  have shapes: "http_status limit_error = 200"
    "field limit_error ''status'' = Some (JStr ''error'')"
    "field limit_error ''message'' = None"
    "http_status sort_error = 200" "field sort_error ''status'' = Some (JStr ''error'')"
    "http_status range_error = 200" "field range_error ''status'' = Some (JStr ''error'')"
    by (simp_all add: limit_error_def sort_error_def range_error_def json_reply_def field_def)
  have l: "history now (query_request [(''limit'', ''101'')]) d (Some u) = (Sent limit_error, d)"
    by (simp add: history_def query_request_def parse_samples or_default_def)
  have s: "history now (query_request [(''sort'', ''sideways'')]) d (Some u)
      = (Sent sort_error, d)"
    by (simp add: history_def query_request_def parse_samples or_default_def
        sort_direction_def truthy_str_def)
  have r: "history now (query_request [(''after'', ''5''), (''before'', ''3'')]) d (Some u)
      = (Sent range_error, d)"
    by (simp add: history_def query_request_def parse_samples or_default_def
        sort_direction_def truthy_str_def)
  have z: "\<exists>es. fst (history 5000 (query_request [(''limit'', ''0'')]) d (Some u))
              = Sent (page_reply es (stats_mood_sets u) (stats_mood_sets u div 25))"
    by (auto simp: history_def query_request_def parse_samples or_default_def
        sort_direction_def truthy_str_def isSafeInteger_def select_history_page_def
        order_by_id_def)
  from shapes l s r z show ?thesis by blast
qed

theorem history_validation_errors_are_200_witness:
  "history 5000 (query_request [(''limit'', ''101'')]) db0 (Some amy) = (Sent limit_error, db0)
   \<and> http_status limit_error = 200
   \<and> field limit_error ''message'' = None
   \<and> history 5000 (query_request [(''sort'', ''sideways'')]) db0 (Some amy)
        = (Sent sort_error, db0)
   \<and> http_status sort_error = 200
   \<and> history 5000 (query_request [(''after'', ''5''), (''before'', ''3'')]) db0 (Some amy)
        = (Sent range_error, db0)
   \<and> http_status range_error = 200"
  using history_validation_errors_are_200 [of 5000 db0 amy] by simp

lemma order_by_id_Inr:
  assumes "order_by_id dir xs = Inr rows"
  shows "set rows = set xs"
  using assms by (auto simp: order_by_id_def split: if_splits)

lemma no_entries_in_errors:
  "field (error_reply code msg) ''entries'' = None" "field sort_error ''entries'' = None"
  "field limit_error ''entries'' = None" "field range_error ''entries'' = None"
  by (simp_all add: field_def error_reply_def sort_error_def limit_error_def range_error_def
      json_reply_def)

lemma history_all_entries:
  assumes "history_all req d user = (Sent r, d1)" "field r ''entries'' = Some (JArr es)"
  shows "\<exists>rows. es = map format_entry rows \<and> set rows \<subseteq> set (mood d)"
proof (cases "truthy_str (query req ''sort'') \<and> sort_direction (query req ''sort'') = None")
  case True
  with assms show ?thesis
    by (auto simp: history_all_def no_entries_in_errors)
next
  case False
  with assms(1) obtain u where u: "user = Some u"
    by (cases user) (auto simp: history_all_def)
  obtain res d2 where sel: "select_history_all d (u_id u)
      (interpolate (sort_direction (query req ''sort''))) = (res, d2)"
    by (cases "select_history_all d (u_id u) (interpolate (sort_direction (query req ''sort'')))")
  with assms(1) False u obtain rows where rows: "res = Inr rows"
    "r = json_reply 200 [(''status'', JStr ''ok''), (''entries'', JArr (map format_entry rows))]"
    by (cases res) (auto simp: history_all_def)
  from sel rows(1) have "set rows \<subseteq> set (mood d)"
    by (auto simp: select_history_all_def dest!: order_by_id_Inr)
  moreover from assms(2) rows(2) have "es = map format_entry rows"
    by (simp add: field_def json_reply_def)
  ultimately show ?thesis by blast
qed

lemma select_history_page_rows:
  assumes "select_history_page d uid a b dir n k = (Inr rows, d2)"
  shows "set rows \<subseteq> set (mood d)"
proof -
  let ?xs = "filter (\<lambda>r. user_id r = uid \<and> a < timestamp r \<and> timestamp r < b) (mood d)"
  from assms obtain rows' where o: "order_by_id dir ?xs = Inr rows'"
    and r: "rows = take (nat n) (drop (nat k) rows')"
    by (cases "order_by_id dir ?xs") (auto simp: select_history_page_def)
  from order_by_id_Inr [OF o] have "set rows' \<subseteq> set (mood d)"
    by auto
  moreover from r have "set rows \<subseteq> set rows'"
    by (metis set_take_subset set_drop_subset subset_trans)
  ultimately show ?thesis by blast
qed

lemma history_entries:
  assumes "history now req d user = (Sent r, d1)" "field r ''entries'' = Some (JArr es)"
  shows "\<exists>rows. es = map format_entry rows \<and> set rows \<subseteq> set (mood d)"
proof -
  from assms(1) obtain u where u: "user = Some u"
    by (cases user) (auto simp: history_def)
  let ?limit = "or_default (parseInt (query req ''limit'')) 25"
  let ?page = "or_default (parseInt (query req ''page'')) 0"
  let ?before = "or_default (parseInt (query req ''before'')) now"
  let ?after = "or_default (parseInt (query req ''after'')) 0"
  let ?dir = "case sort_direction (query req ''sort'') of None \<Rightarrow> ''desc'' | Some s \<Rightarrow> s"
  have shape: "r = page_reply [] (stats_mood_sets u) (stats_mood_sets u div ?limit)
      \<or> (\<exists>rows d2. select_history_page d (u_id u) ?after ?before ?dir ?limit (?page * ?limit)
            = (Inr rows, d2)
          \<and> r = page_reply (map format_entry rows) (stats_mood_sets u)
                  (stats_mood_sets u div ?limit))
      \<or> field r ''entries'' = None"
    using assms(1) unfolding u history_def Let_def
    by (auto simp: no_entries_in_errors split: if_splits prod.splits sum.splits)
  from shape assms(2) show ?thesis
  proof (elim disjE exE conjE)
    assume "r = page_reply [] (stats_mood_sets u) (stats_mood_sets u div ?limit)"
    with assms(2) have "es = map format_entry []"
      by (simp add: field_def page_reply_def json_reply_def)
    then show ?thesis by (metis empty_subsetI list.set(1))
  next
    fix rows d2
    assume sel: "select_history_page d (u_id u) ?after ?before ?dir ?limit (?page * ?limit)
            = (Inr rows, d2)"
      and "r = page_reply (map format_entry rows) (stats_mood_sets u)
                  (stats_mood_sets u div ?limit)"
    with assms(2) have "es = map format_entry rows"
      by (simp add: field_def page_reply_def json_reply_def)
    with select_history_page_rows [OF sel] show ?thesis by blast
  next
    assume "field r ''entries'' = None"
    with assms(2) show ?thesis by simp
  qed
qed

lemma route_entries:
  assumes h: "\<And>d1 user r d2 es. handler d1 user = (Sent r, d2) \<Longrightarrow>
        field r ''entries'' = Some (JArr es) \<Longrightarrow>
        \<exists>rows. es = map format_entry rows \<and> set rows \<subseteq> set (mood d1)"
    and run: "route (userParamOrAuth d req) handler = (Sent r, d')"
    and es: "field r ''entries'' = Some (JArr es)"
  shows "\<exists>rows. es = map format_entry rows \<and> set rows \<subseteq> set (mood d)"
proof -
  obtain s d1 where m: "userParamOrAuth d req = (s, d1)"
    by (cases "userParamOrAuth d req")
  from userParamOrAuth_reads_only [OF m] have same: "mood d1 = mood d"
    by simp
  show ?thesis
  proof (cases s)
    case (Respond r')
    with m run have "r = r'" by (simp add: route_def)
    moreover from m Respond have "\<exists>msg. r' = error_reply 401 msg"
      by (auto simp: userParamOrAuth_def resolved_def split: option.splits if_splits prod.splits)
    ultimately show ?thesis
      using es by (auto simp: no_entries_in_errors)
  next
    case (Next user)
    with m run have "handler d1 user = (Sent r, d')" by (simp add: route_def)
    from h [OF this es] same show ?thesis by simp
  qed
qed

lemma trunc2_samples:
  "trunc2 (fl (567/1000)) = fl (56/100)" "trunc2 (fl (- 1/1000)) = fl (- 1/100)"
  "fl (- 1/100) \<noteq> Fin 0"
  by code_simp+

text \<open>
  The arithmetic is that of binary64, not of decimals: the number written 0.29 lies
  below 29/100 and comes out as 0.28, the number written 0.35 lies below 35/100 too, but
  its product with 100 rounds to 35 and it comes out as 0.35.
\<close>

lemma trunc2_rounding:
  "trunc2 (fl (29/100)) = fl (28/100)" "trunc2 (fl (35/100)) = fl (35/100)"
  "num_mul (fl (35/100)) (Fin 100) = Fin 35"
  by code_simp+

text \<open>
  Claim C7.  Every entry that \<open>GET /history/all/:user?\<close> and \<open>GET /history/:user?\<close>
  return is a stored sample whose pleasantness and energy have gone through
  \<open>Math.floor(x * 100) / 100\<close>, in binary64 arithmetic.  The number written 0.567 comes
  out as the number written 0.56, and -0.001 as -0.01, which is not 0.
\<close>

theorem history_entries_truncated:
  "(\<forall>r d' es. route_history_all d req = (Sent r, d') \<and> field r ''entries'' = Some (JArr es)
       \<longrightarrow> (\<exists>rows. es = map format_entry rows \<and> set rows \<subseteq> set (mood d)))
   \<and> (\<forall>r d' es. route_history now d req = (Sent r, d') \<and> field r ''entries'' = Some (JArr es)
       \<longrightarrow> (\<exists>rows. es = map format_entry rows \<and> set rows \<subseteq> set (mood d)))
   \<and> format_entry x = JObj [(''timestamp'', JInt (timestamp x)),
        (''pleasantness'',
           JNum (num_div (math_floor (num_mul (pleasantness x) (Fin 100))) (Fin 100))),
        (''energy'', JNum (num_div (math_floor (num_mul (energy x) (Fin 100))) (Fin 100)))]
   \<and> num_div (math_floor (num_mul (fl (567/1000)) (Fin 100))) (Fin 100) = fl (56/100)
   \<and> num_div (math_floor (num_mul (fl (- 1/1000)) (Fin 100))) (Fin 100) = fl (- 1/100)
   \<and> fl (- 1/100) \<noteq> Fin 0"
proof -
  have a: "\<exists>rows. es = map format_entry rows \<and> set rows \<subseteq> set (mood d)"
    if "route_history_all d req = (Sent r, d')" "field r ''entries'' = Some (JArr es)"
    for r d' es
  proof -
    from that(1) have run: "route (userParamOrAuth d req) (history_all req) = (Sent r, d')"
      by (simp add: route_history_all_def)
    show ?thesis
    proof (rule route_entries [OF _ run that(2)])
      fix d1 user r1 d2 es1
      assume "history_all req d1 user = (Sent r1, d2)" "field r1 ''entries'' = Some (JArr es1)"
      then show "\<exists>rows. es1 = map format_entry rows \<and> set rows \<subseteq> set (mood d1)"
        by (rule history_all_entries)
    qed
  qed
  have b: "\<exists>rows. es = map format_entry rows \<and> set rows \<subseteq> set (mood d)"
    if "route_history now d req = (Sent r, d')" "field r ''entries'' = Some (JArr es)"
    for r d' es
  proof -
    from that(1) have run: "route (userParamOrAuth d req) (history now req) = (Sent r, d')"
      by (simp add: route_history_def)
    show ?thesis
    proof (rule route_entries [OF _ run that(2)])
      fix d1 user r1 d2 es1
      assume "history now req d1 user = (Sent r1, d2)" "field r1 ''entries'' = Some (JArr es1)"
      then show "\<exists>rows. es1 = map format_entry rows \<and> set rows \<subseteq> set (mood d1)"
        by (rule history_entries)
    qed
  qed
  have c: "format_entry x = JObj [(''timestamp'', JInt (timestamp x)),
        (''pleasantness'',
           JNum (num_div (math_floor (num_mul (pleasantness x) (Fin 100))) (Fin 100))),
        (''energy'', JNum (num_div (math_floor (num_mul (energy x) (Fin 100))) (Fin 100)))]"
    by (simp add: format_entry_def trunc2_def)
  from a b c trunc2_samples [unfolded trunc2_def] show ?thesis by blast
qed
lemma amy_resolved_db1:
  "userParamOrAuth db1 (query_request kvs) =
     (Next (Some amy), issue (SelectUserByToken ''tok-amy'') db1)"
proof -
  have "fetch_first (filter (\<lambda>v. token v = ''tok-amy'') (users db1)) = Some amy"
    using amy_by_token by (simp add: db1_def)
  then show ?thesis
    by (simp add: userParamOrAuth_def resolved_def select_user_by_token_def query_request_def
        request0_def truthy_str_def)
qed

theorem history_entries_truncated_witness:
  "route_history_all db1 (query_request [(''sort'', ''oldest'')]) =
     (Sent (json_reply 200 [(''status'', JStr ''ok''),
        (''entries'', JArr [JObj [(''timestamp'', JInt 7000),
           (''pleasantness'', JNum (fl (56/100))), (''energy'', JNum (fl (- 1/100)))]])]),
      issue (SelectHistoryAll 1 ''asc'') (issue (SelectUserByToken ''tok-amy'') db1))
   \<and> (\<exists>rows. [JObj [(''timestamp'', JInt 7000),
           (''pleasantness'', JNum (fl (56/100))), (''energy'', JNum (fl (- 1/100)))]]
         = map format_entry rows \<and> set rows \<subseteq> set (mood db1))"
proof -
  let ?req = "query_request [(''sort'', ''oldest'')]"
  note T = history_entries_truncated [of db1 ?req 5000 row4]
  have q: "query ?req ''sort'' = Some ''oldest''"
    by (simp add: query_request_def)
  have rows: "sort_key m_id (filter (\<lambda>r. user_id r = u_id amy) (mood db1)) = [row4]"
    by (simp add: db1_def row4_def amy_def)
  have run: "route_history_all db1 ?req =
     (Sent (json_reply 200 [(''status'', JStr ''ok''), (''entries'', JArr [format_entry row4])]),
      issue (SelectHistoryAll 1 ''asc'') (issue (SelectUserByToken ''tok-amy'') db1))"
    using history_all_sorted [OF q, of "issue (SelectUserByToken ''tok-amy'') db1" amy] rows
    by (simp add: route_history_all_def route_def amy_resolved_db1) (simp add: amy_def)
  have fe: "format_entry row4 = JObj [(''timestamp'', JInt 7000),
           (''pleasantness'', JNum (fl (56/100))), (''energy'', JNum (fl (- 1/100)))]"
    using T [THEN conjunct2, THEN conjunct2] by (simp add: row4_def)
  have fld: "field (json_reply 200 [(''status'', JStr ''ok''),
      (''entries'', JArr [format_entry row4])]) ''entries'' = Some (JArr [format_entry row4])"
    by (simp add: field_def json_reply_def)
  have ex: "\<exists>rows. [format_entry row4] = map format_entry rows
      \<and> set rows \<subseteq> set (mood db1)"
    by (rule T [THEN conjunct1, rule_format, OF conjI [OF run fld]])
  from run ex show ?thesis unfolding fe by simp
qed

section \<open>Properties of the account settings\<close>

lemma new_username_reads_only:
  assumes "new_username req d u = (r, d1)"
  shows "users d1 = users d \<and> mood d1 = mood d
       \<and> filter is_write (issued d1) = filter is_write (issued d)"
  using assms
  by (auto simp: new_username_def select_username_taken_def Let_def
      split: jsval.splits if_splits)

lemma new_username_Inr:
  assumes "new_username req d u = (Inr u1, d1)" "body req ''username'' = JString name"
  shows "valid_username name \<and> name \<notin> username ` set (users d)"
  using assms
  by (auto simp: new_username_def select_username_taken_def Let_def filter_empty_conv
      split: if_splits)

lemma new_username_Inl:
  assumes "new_username req d u = (Inl r, d1)"
  shows "r = error_reply 400 ''Invalid username'' \<or> r = error_reply 409 ''Username taken''"
  using assms
  by (auto simp: new_username_def select_username_taken_def Let_def
      split: jsval.splits if_splits)

lemma password_check_None:
  assumes "password_check P req u = None"
    "truthy (body req ''username'') \<or> truthy (body req ''new_password'')"
  shows "\<exists>c. body req ''confirm_password'' = JString c \<and> bcrypt_compare P c (password_hash u)"
  using assms by (auto simp: password_check_def split: jsval.splits if_splits)

lemma password_check_Some:
  assumes "password_check P req u = Some out"
  shows "out = Sent (error_reply 401 ''Passwords do not match'') \<or> out = Threw BcryptError"
  using assms by (auto simp: password_check_def split: jsval.splits if_splits)

lemma ok_is_no_error:
  "ok_reply \<noteq> error_reply code msg"
  by (simp add: ok_reply_def error_reply_def json_reply_def)

lemma patch_me_cases:
  assumes "patch_me P req d (Some u) = (out, d')"
  shows "(out \<in> {Sent (error_reply 401 ''Passwords do not match''), Threw BcryptError,
                 Sent (error_reply 400 ''Invalid username''),
                 Sent (error_reply 409 ''Username taken'')}
          \<and> users d' = users d \<and> mood d' = mood d
          \<and> filter is_write (issued d') = filter is_write (issued d))
       \<or> (out = Sent ok_reply
          \<and> filter is_write (issued d') = filter is_write (issued d) @ [UpdateUser (u_id u)]
          \<and> (truthy (body req ''username'') \<or> truthy (body req ''new_password'') \<longrightarrow>
                (\<exists>c. body req ''confirm_password'' = JString c
                      \<and> bcrypt_compare P c (password_hash u)))
          \<and> (\<forall>name. body req ''username'' = JString name \<longrightarrow>
                valid_username name \<and> name \<notin> username ` set (users d)))"
proof (cases "password_check P req u")
  case (Some o1)
  with assms password_check_Some [OF Some] show ?thesis
    by (auto simp: patch_me_def)
next
  case None
  note pc = this
  obtain r d1 where nu: "new_username req d u = (r, d1)"
    by (cases "new_username req d u")
  note ro = new_username_reads_only [OF nu]
  show ?thesis
  proof (cases r)
    case (Inl e)
    with assms pc nu new_username_Inl [of req d u e d1] ro show ?thesis
      by (auto simp: patch_me_def)
  next
    case (Inr u1)
    from nu Inr have id: "u_id u1 = u_id u"
      by (auto simp: new_username_def select_username_taken_def Let_def
          split: jsval.splits if_splits)
    have id2: "u_id (new_flags req (new_password P req u1)) = u_id u1"
      by (simp add: new_flags_def new_password_def Let_def split: jsval.splits)
    from assms pc nu Inr have out: "out = Sent ok_reply"
      and d': "d' = update_user d1 (new_flags req (new_password P req u1))"
      by (simp_all add: patch_me_def)
    from d' ro id id2
    have w: "filter is_write (issued d') = filter is_write (issued d) @ [UpdateUser (u_id u)]"
      by (simp add: update_user_def)
    from nu Inr have v: "\<forall>name. body req ''username'' = JString name \<longrightarrow>
                valid_username name \<and> name \<notin> username ` set (users d)"
      using new_username_Inr by blast
    from out w v password_check_None [OF pc] show ?thesis by blast
  qed
qed

text \<open>
  Claim C10.  A \<open>PATCH /me\<close> that does not end in \<open>ok\<close> (401 for no or a wrong token,
  401 for a wrong confirmation password, 400 for an invalid username, 409 for a taken
  one, or the exception of \<open>bcrypt.compare\<close>) leaves both tables as they were and sends
  no writing statement.  A request that writes sends exactly one \<open>update users\<close>, is
  answered \<open>ok\<close>, and has passed the confirmation of the password (when a username or a
  new password is given) and the two checks of the username (when one is given).
\<close>

theorem patch_me_errors_write_nothing:
  assumes "route_patch_me P d req = (out, d')"
  shows "(out \<noteq> Sent ok_reply \<longrightarrow>
            users d' = users d \<and> mood d' = mood d
            \<and> filter is_write (issued d') = filter is_write (issued d))
       \<and> (filter is_write (issued d') \<noteq> filter is_write (issued d) \<longrightarrow>
            out = Sent ok_reply
            \<and> (\<exists>u::user_row.
                 filter is_write (issued d') = filter is_write (issued d) @ [UpdateUser (u_id u)]
                 \<and> (truthy (body req ''username'') \<or> truthy (body req ''new_password'') \<longrightarrow>
                       (\<exists>c. body req ''confirm_password'' = JString c
                             \<and> bcrypt_compare P c (password_hash u)))
                 \<and> (\<forall>name. body req ''username'' = JString name \<longrightarrow>
                       valid_username name \<and> name \<notin> username ` set (users d))))"
proof -
  obtain s d1 where g: "getAuth d req = (s, d1)"
    by (cases "getAuth d req")
  from getAuth_reads_only [OF g]
  have ro: "users d1 = users d" "mood d1 = mood d"
      "filter is_write (issued d1) = filter is_write (issued d)"
    and sh: "s = Respond (error_reply 401 ''Unauthorized'') \<or> (\<exists>u. s = Next (Some u))"
    by simp_all
  from sh consider "s = Respond (error_reply 401 ''Unauthorized'')" | u where "s = Next (Some u)"
    by blast
  then show ?thesis
  proof cases
    case 1
    with assms g have "out = Sent (error_reply 401 ''Unauthorized'')" "d' = d1"
      by (simp_all add: route_patch_me_def route_def)
    with ro show ?thesis
      by simp
  next
    case (2 u)
    with assms g have run: "patch_me P req d1 (Some u) = (out, d')"
      by (simp add: route_patch_me_def route_def)
    from patch_me_cases [OF run] show ?thesis
    proof (elim disjE conjE)
      assume "out \<in> {Sent (error_reply 401 ''Passwords do not match''), Threw BcryptError,
                 Sent (error_reply 400 ''Invalid username''),
                 Sent (error_reply 409 ''Username taken'')}"
        "users d' = users d1" "mood d' = mood d1"
        "filter is_write (issued d') = filter is_write (issued d1)"
      with ro show ?thesis by simp
    next
      assume ok: "out = Sent ok_reply"
        and w: "filter is_write (issued d') = filter is_write (issued d1) @ [UpdateUser (u_id u)]"
        and c: "truthy (body req ''username'') \<or> truthy (body req ''new_password'') \<longrightarrow>
                (\<exists>c. body req ''confirm_password'' = JString c
                      \<and> bcrypt_compare P c (password_hash u))"
        and n: "\<forall>name. body req ''username'' = JString name \<longrightarrow>
                valid_username name \<and> name \<notin> username ` set (users d1)"
      let ?Q = "\<lambda>u::user_row. filter is_write (issued d')
            = filter is_write (issued d) @ [UpdateUser (u_id u)]
          \<and> (truthy (body req ''username'') \<or> truthy (body req ''new_password'') \<longrightarrow>
                (\<exists>c. body req ''confirm_password'' = JString c
                      \<and> bcrypt_compare P c (password_hash u)))
          \<and> (\<forall>name. body req ''username'' = JString name \<longrightarrow>
                valid_username name \<and> name \<notin> username ` set (users d))"
      from w c n ro have "?Q u"
        by simp
      then have "\<exists>u. ?Q u"
        by (rule exI [of ?Q u])
      with ok show ?thesis by simp
    qed
  qed
qed

theorem patch_me_errors_write_nothing_witness:
  "route_patch_me prims0 db0
       (body_request [(''username'', JString ''zed''), (''confirm_password'', JString ''secret'')])
     = (Sent (error_reply 409 ''Username taken''),
        issue (SelectUsernameTaken ''zed'') (issue (SelectUserByToken ''tok-amy'') db0))
   \<and> users (snd (route_patch_me prims0 db0
       (body_request [(''username'', JString ''zed''), (''confirm_password'', JString ''secret'')])))
     = users db0
   \<and> filter is_write (issued (snd (route_patch_me prims0 db0
       (body_request [(''username'', JString ''zed''), (''confirm_password'', JString ''secret'')]))))
     = []
   \<and> fst (route_patch_me prims0 db0
       (body_request [(''username'', JString ''zed''), (''confirm_password'', JString ''wrong'')]))
     = Sent (error_reply 401 ''Passwords do not match'')
   \<and> fst (route_patch_me prims0 db0
       (body_request [(''username'', JString ''Zed''), (''confirm_password'', JString ''secret'')]))
     = Sent (error_reply 400 ''Invalid username'')"
proof -
  let ?req = "body_request [(''username'', JString ''zed''),
      (''confirm_password'', JString ''secret'')]"
  let ?wrong = "body_request [(''username'', JString ''zed''),
      (''confirm_password'', JString ''wrong'')]"
  let ?upper = "body_request [(''username'', JString ''Zed''),
      (''confirm_password'', JString ''secret'')]"
  let ?d1 = "issue (SelectUserByToken ''tok-amy'') db0"
  have tok: "authorization (body_request kvs) = Some ''tok-amy''" "''tok-amy'' \<noteq> []" for kvs
    by (simp_all add: body_request_def)
  have run: "route_patch_me prims0 db0 (body_request kvs) =
      patch_me prims0 (body_request kvs) ?d1 (Some amy)" for kvs
    using getAuth_token [OF tok amy_by_token] by (simp add: route_patch_me_def route_def)
  have b1: "body ?req ''username'' = JString ''zed''" "body ?req ''new_password'' = JUndefined"
    "body ?req ''confirm_password'' = JString ''secret''"
    by (simp_all add: body_request_def)
  have b2: "body ?wrong ''username'' = JString ''zed''"
    "body ?wrong ''new_password'' = JUndefined"
    "body ?wrong ''confirm_password'' = JString ''wrong''"
    by (simp_all add: body_request_def)
  have b3: "body ?upper ''username'' = JString ''Zed''"
    "body ?upper ''new_password'' = JUndefined"
    "body ?upper ''confirm_password'' = JString ''secret''"
    by (simp_all add: body_request_def)
  have cmp: "bcrypt_compare prims0 ''secret'' (password_hash amy)"
    "\<not> bcrypt_compare prims0 ''wrong'' (password_hash amy)"
    by (simp_all add: prims0_def amy_def)
  have valid: "valid_username ''zed''" "\<not> valid_username ''Zed''"
    by (simp_all add: valid_username_def username_char_def)
  have taken: "filter (\<lambda>u. username u = ''zed'') (users ?d1) \<noteq> []"
    by (simp add: db0_def zed_def)
  have pc1: "password_check prims0 ?req amy = None"
    unfolding password_check_def b1 using cmp by simp
  have pc2: "password_check prims0 ?wrong amy
      = Some (Sent (error_reply 401 ''Passwords do not match''))"
    unfolding password_check_def b2 using cmp by simp
  have pc3: "password_check prims0 ?upper amy = None"
    unfolding password_check_def b3 using cmp by simp
  have nu1: "new_username ?req ?d1 amy =
      (Inl (error_reply 409 ''Username taken''), issue (SelectUsernameTaken ''zed'') ?d1)"
    unfolding new_username_def b1 using valid taken
    by (simp add: select_username_taken_def)
  have nu3: "new_username ?upper ?d1 amy = (Inl (error_reply 400 ''Invalid username''), ?d1)"
    unfolding new_username_def b3 using valid by simp
  have a: "route_patch_me prims0 db0 ?req
     = (Sent (error_reply 409 ''Username taken''), issue (SelectUsernameTaken ''zed'') ?d1)"
    unfolding run by (simp add: patch_me_def pc1 nu1)
  have b: "fst (route_patch_me prims0 db0 ?wrong)
     = Sent (error_reply 401 ''Passwords do not match'')"
    unfolding run by (simp add: patch_me_def pc2)
  have c: "fst (route_patch_me prims0 db0 ?upper) = Sent (error_reply 400 ''Invalid username'')"
    unfolding run by (simp add: patch_me_def pc3 nu3)
  have ne: "Sent (error_reply 409 ''Username taken'') \<noteq> Sent ok_reply"
    using ok_is_no_error [of 409 "''Username taken''"] by simp
  note T = patch_me_errors_write_nothing [OF a, THEN conjunct1, rule_format, OF ne]
  have e: "issued db0 = []"
    by (simp add: db0_def)
  from T have d: "users (snd (route_patch_me prims0 db0 ?req)) = users db0"
    "filter is_write (issued (snd (route_patch_me prims0 db0 ?req))) = []"
    unfolding a by (simp_all add: e)
  from a b c d show ?thesis
    by (intro conjI)
qed

section \<open>Properties of the metrics aggregator\<close>

lemma fst_fetchMood_cong:
  assumes "mood d1 = mood d"
  shows "fst (fetchMood d1 i) = fst (fetchMood d i)"
  using assms by (simp add: fetchMood_def split: option.splits)

lemma fetch_moods_result:
  assumes "fetch_moods m d us = (m', d')"
  shows "users d' = users d \<and> mood d' = mood d
       \<and> filter is_write (issued d') = filter is_write (issued d)
       \<and> (\<forall>i. m' i = (if i \<in> u_id ` set us then Some (fst (fetchMood d i)) else m i))"
  using assms
proof (induction us arbitrary: m d)
  case Nil
  then show ?case by simp
next
  case (Cons u us)
  obtain s d1 where f: "fetchMood d (u_id u) = (s, d1)"
    by (cases "fetchMood d (u_id u)")
  with snd_fetchMood [of d "u_id u"] have d1: "d1 = issue (SelectLatestMood (u_id u)) d"
    by simp
  from Cons.prems f have rest: "fetch_moods (m(u_id u \<mapsto> s)) d1 us = (m', d')"
    by simp
  note ih = Cons.IH [OF rest]
  have same: "fst (fetchMood d1 i) = fst (fetchMood d i)" for i
    using d1 by simp
  from f have s: "s = fst (fetchMood d (u_id u))"
    by simp
  from ih d1 same s show ?case
    by auto
qed

lemma those_map_Some:
  assumes "\<forall>x\<in>set xs. f x = Some (g x)"
  shows "those (map f xs) = Some (map g xs)"
  using assms by (induction xs) simp_all

lemma select_public_users_result:
  assumes "select_public_users collate d names = (us, d1)"
  shows "set us = {u \<in> set (users d). username u \<in> set names
                     \<and> \<not> is_profile_private u \<and> \<not> is_history_private u}
       \<and> length us = length (filter (\<lambda>u. username u \<in> set names \<and> \<not> is_profile_private u
                                       \<and> \<not> is_history_private u) (users d))
       \<and> sorted (rev (map (\<lambda>u. collate (username u)) us))
       \<and> d1 = issue (SelectPublicUsers names) d"
proof -
  let ?rows = "filter (\<lambda>u. username u \<in> set names \<and> is_profile_private u = False
                      \<and> is_history_private u = False) (users d)"
  from assms have us: "us = rev (sort_key (\<lambda>u. collate (username u)) ?rows)"
    and d1: "d1 = issue (SelectPublicUsers names) d"
    by (simp_all add: select_public_users_def)
  have "rev (map (\<lambda>u. collate (username u)) us)
      = map (\<lambda>u. collate (username u)) (sort_key (\<lambda>u. collate (username u)) ?rows)"
    by (simp add: us rev_map)
  then have "sorted (rev (map (\<lambda>u. collate (username u)) us))"
    by (simp add: sorted_sort_key)
  moreover have "set us = set ?rows" "length us = length ?rows"
    by (simp_all add: us)
  ultimately show ?thesis
    using d1 by auto
qed

lemma join_lines_concat:
  "join_lines (l # ls) = l @ concat (map (\<lambda>k. CHR 0x0A # k) ls)"
proof (induction ls arbitrary: l)
  case Nil
  show ?case by simp
next
  case (Cons k ks)
  have "join_lines (l # k # ks) = l @ [CHR 0x0A] @ join_lines (k # ks)"
    by simp
  with Cons [of k] show ?case
    by simp
qed

lemma metrics_body:
  assumes q: "query req ''users'' = Some s" "s \<noteq> []" "length (split_comma s) \<le> 16"
    and sel: "select_public_users collate d (split_comma s) = (us, d1)"
  shows "\<exists>d'. metrics collate P d req =
      (Sent \<lparr>http_status = 200, content = Text (join_lines (exposition
         (map (\<lambda>x. metric_line ''user_energy'' x
                 (toFixed2 P (s_energy (fst (fetchMood d (u_id x)))))) us)
         (map (\<lambda>x. metric_line ''user_pleasantness'' x
                 (toFixed2 P (s_pleasantness (fst (fetchMood d (u_id x)))))) us)
         (map mood_sets_line us)))\<rparr>, d')
    \<and> users d' = users d \<and> mood d' = mood d
    \<and> filter is_write (issued d') = filter is_write (issued d)"
proof -
  obtain m d2 where fm: "fetch_moods Map.empty d1 us = (m, d2)"
    by (cases "fetch_moods Map.empty d1 us")
  from select_public_users_result [OF sel] have d1: "d1 = issue (SelectPublicUsers (split_comma s)) d"
    by simp
  note r = fetch_moods_result [OF fm]
  have same: "fst (fetchMood d1 i) = fst (fetchMood d i)" for i
    using d1 by simp
  from r same have m: "\<forall>x\<in>set us. m (u_id x) = Some (fst (fetchMood d (u_id x)))"
    by auto
  have es: "those (map (energy_line P m) us) = Some
      (map (\<lambda>x. metric_line ''user_energy'' x
                 (toFixed2 P (s_energy (fst (fetchMood d (u_id x)))))) us)"
    using m by (intro those_map_Some) (simp add: energy_line_def)
  have ps: "those (map (pleasantness_line P m) us) = Some
      (map (\<lambda>x. metric_line ''user_pleasantness'' x
                 (toFixed2 P (s_pleasantness (fst (fetchMood d (u_id x)))))) us)"
    using m by (intro those_map_Some) (simp add: pleasantness_line_def)
  have run: "metrics collate P d req =
      (Sent \<lparr>http_status = 200, content = Text (join_lines (exposition
         (map (\<lambda>x. metric_line ''user_energy'' x
                 (toFixed2 P (s_energy (fst (fetchMood d (u_id x)))))) us)
         (map (\<lambda>x. metric_line ''user_pleasantness'' x
                 (toFixed2 P (s_pleasantness (fst (fetchMood d (u_id x)))))) us)
         (map mood_sets_line us)))\<rparr>, d2)"
    using q by (simp add: metrics_def sel fm es ps)
  from r d1 have "users d2 = users d \<and> mood d2 = mood d
    \<and> filter is_write (issued d2) = filter is_write (issued d)"
    by simp
  with run show ?thesis by blast
qed

lemma exposition_text:
  \<open>join_lines (exposition
     (map (\<lambda>x. metric_line ''user_energy'' x (e x)) us)
     (map (\<lambda>x. metric_line ''user_pleasantness'' x (p x)) us)
     (map mood_sets_line us))
   = ''# HELP user_energy Current energy of the user.''
     @ concat (map (\<lambda>l. CHR 0x0A # l)
        ([''# TYPE user_energy gauge'']
         @ map (\<lambda>x. ''user_energy{user="'' @ username x @ ''"} '' @ e x) us
         @ [[],
            ''# HELP user_pleasantness How pleasant the user is feeling.'',
            ''# TYPE user_pleasantness gauge'']
         @ map (\<lambda>x. ''user_pleasantness{user="'' @ username x @ ''"} '' @ p x) us
         @ [[],
            ''# HELP user_mood_sets How often a user has changed their mood.'',
            ''# TYPE user_mood_sets counter'']
         @ map (\<lambda>x. ''user_mood_sets{user="'' @ username x @ ''"} ''
                     @ show_int (stats_mood_sets x)) us))\<close>
proof -
  have l: "metric_line name x v = name @ [CHR ''{''] @ ''user='' @ [CHR 0x22] @ username x
      @ [CHR 0x22] @ ''} '' @ v" for name x v
    by (simp add: metric_line_def)
  have ms: "map mood_sets_line us
      = map (\<lambda>x. metric_line ''user_mood_sets'' x (show_int (stats_mood_sets x))) us"
    by (simp add: mood_sets_line_def)
  show ?thesis
    unfolding exposition_def append.simps join_lines_concat ms
    by (simp add: l)
qed

declare dec.simps [simp del]

lemma char_of_48: "char_of (48::nat) = CHR ''0''"
  by code_simp

lemma split_comma_spec:
  "split_comma s \<noteq> []
   \<and> s = hd (split_comma s) @ concat (map (\<lambda>w. CHR '','' # w) (tl (split_comma s)))
   \<and> (\<forall>w\<in>set (split_comma s). CHR '','' \<notin> set w)
   \<and> length (split_comma s) = Suc (count_list s (CHR '',''))"
proof (induction s)
  case Nil
  show ?case by simp
next
  case (Cons c cs)
  then obtain w ws where sp: "split_comma cs = w # ws"
    by (cases "split_comma cs") auto
  with Cons show ?case
    by (cases "c = CHR '',''") auto
qed

lemma dec_decimal:
  "dec n \<noteq> []
   \<and> (\<forall>c\<in>set (dec n). 48 \<le> (of_char c :: nat) \<and> (of_char c :: nat) \<le> 57)
   \<and> foldl (\<lambda>a c. 10 * a + (of_char c - 48)) 0 (dec n) = n
   \<and> (10 \<le> n \<longrightarrow> hd (dec n) \<noteq> CHR ''0'')"
proof (induction n rule: dec.induct)
  case (1 n)
  show ?case
  proof (cases "n < 10")
    case True
    then have "dec n = [char_of (48 + n)]"
      by (subst dec.simps) simp
    with True show ?thesis
      by simp
  next
    case False
    with 1 have ih: "dec (n div 10) \<noteq> []"
      "\<forall>c\<in>set (dec (n div 10)). 48 \<le> (of_char c :: nat) \<and> (of_char c :: nat) \<le> 57"
      "foldl (\<lambda>a c. 10 * a + (of_char c - 48)) 0 (dec (n div 10)) = n div 10"
      "10 \<le> n div 10 \<longrightarrow> hd (dec (n div 10)) \<noteq> CHR ''0''"
      by simp_all
    have eq: "dec n = dec (n div 10) @ [char_of (48 + n mod 10)]"
      using False by (subst dec.simps) simp
    have small: "n div 10 < 10 \<Longrightarrow> dec (n div 10) = [char_of (48 + n div 10)]"
      by (subst dec.simps) simp
    have lead: "hd (dec n) \<noteq> CHR ''0''"
    proof (cases "n div 10 < 10")
      case True
      from False have "0 < n div 10" by simp
      with True small have "(of_char (hd (dec (n div 10))) :: nat) \<noteq> 48"
        by simp
      then have "hd (dec (n div 10)) \<noteq> CHR ''0''"
        by auto
      with ih(1) eq show ?thesis by simp
    next
      case False
      with ih(4) ih(1) eq show ?thesis by simp
    qed
    from ih eq lead show ?thesis
      by simp
  qed
qed

lemma dec_hundreds:
  assumes "100 \<le> n"
  shows "dec n = dec (n div 100) @ [char_of (48 + n div 10 mod 10), char_of (48 + n mod 10)]"
proof -
  from assms have a: "dec n = dec (n div 10) @ [char_of (48 + n mod 10)]"
    by (subst dec.simps) simp
  from assms have "\<not> n div 10 < 10" by simp
  then have b: "dec (n div 10) = dec (n div 10 div 10) @ [char_of (48 + n div 10 mod 10)]"
    by (subst dec.simps) simp
  have "n div 10 div 10 = n div 100"
    by (simp add: div_mult2_eq)
  with a b show ?thesis by simp
qed

lemma toFixed2_two_decimals:
  assumes "\<bar>q\<bar> < 10 ^ 21" "n = nat \<lfloor>\<bar>q\<bar> * 100 + 1 / 2\<rfloor>"
  shows "toFixed2 P (Fin q) = (if q < 0 then ''-'' else []) @ dec (n div 100) @ ''.''
           @ [char_of (48 + n div 10 mod 10), char_of (48 + n mod 10)]"
proof -
  let ?m = "dec n"
  let ?z = "replicate (3 - length ?m) (CHR ''0'') @ ?m"
  have split: "take (length ?z - 2) ?z = dec (n div 100)
      \<and> drop (length ?z - 2) ?z = [char_of (48 + n div 10 mod 10), char_of (48 + n mod 10)]"
  proof -
    consider "n < 10" | "10 \<le> n" "n < 100" | "100 \<le> n" by linarith
    then show ?thesis
    proof cases
      case 1
      then have "?m = [char_of (48 + n)]" by (subst dec.simps) simp
      moreover from 1 have "dec (n div 100) = ''0''" by (subst dec.simps) (simp add: char_of_48)
      moreover have "replicate 2 (CHR ''0'') = ''00''" by (simp add: numeral_2_eq_2)
      ultimately show ?thesis using 1 by (simp add: char_of_48)
    next
      case 2
      then have "?m = dec (n div 10) @ [char_of (48 + n mod 10)]"
        by (subst dec.simps) simp
      moreover from 2 have "n div 10 < 10"
        by (simp add: div_less_iff_less_mult)
      then have "dec (n div 10) = [char_of (48 + n div 10)]"
        by (subst dec.simps) simp
      moreover from 2 have "dec (n div 100) = ''0''" by (subst dec.simps) (simp add: char_of_48)
      ultimately show ?thesis using 2 by (simp add: char_of_48)
    next
      case 3
      from dec_decimal [of "n div 100"] have "Suc 0 \<le> length (dec (n div 100))"
        by (cases "dec (n div 100)") simp_all
      with dec_hundreds [OF 3] show ?thesis
        by simp
    qed
  qed
  from assms(1) have small: "(10 ^ 21 \<le> \<bar>q\<bar>) = False" by simp
  have "toFixed2 P (Fin q) = (if q < 0 then ''-'' else [])
      @ (if 10 ^ 21 \<le> \<bar>q\<bar> then number_to_string P \<bar>q\<bar>
         else take (length ?z - 2) ?z @ ''.'' @ drop (length ?z - 2) ?z)"
    unfolding toFixed2_def Let_def jsnum.case assms(2) ..
  also have "\<dots> = (if q < 0 then ''-'' else [])
      @ take (length ?z - 2) ?z @ ''.'' @ drop (length ?z - 2) ?z"
    by (simp only: small if_False)
  also have "\<dots> = (if q < 0 then ''-'' else []) @ dec (n div 100) @ ''.''
           @ [char_of (48 + n div 10 mod 10), char_of (48 + n mod 10)]"
    by (simp only: split)
  finally show ?thesis .
qed

lemma show_int_decimal:
  "show_int (int n) \<noteq> []
   \<and> (\<forall>c\<in>set (show_int (int n)). 48 \<le> (of_char c :: nat) \<and> (of_char c :: nat) \<le> 57)
   \<and> foldl (\<lambda>a c. 10 * a + (of_char c - 48)) 0 (show_int (int n)) = n
   \<and> (10 \<le> n \<longrightarrow> hd (show_int (int n)) \<noteq> CHR ''0'')"
  using dec_decimal [of n] by (simp add: show_int_def)

text \<open>
  Claim C9.  \<open>GET /metrics\<close> answers 400 when \<open>users\<close> is missing (or empty) and when
  it holds more than 16 comma-separated names (more than 15 commas), and issues no
  statement then.  Otherwise the users it reports are exactly the rows whose username is
  among the names and whose two privacy flags are false, each once, by descending
  username in the collation of the database.  The body is the text of these lines,
  joined by line feeds: the help and the type line of \<open>user_energy\<close> (gauge) and one line
  per user, an empty line, the same for \<open>user_pleasantness\<close> (gauge), an empty line, and
  the same for \<open>user_mood_sets\<close> (counter), whose value is the user's \<open>stats_mood_sets\<close>
  in decimal digits.  Neither table is changed and no writing statement is sent.  The
  names are the pieces of the parameter between its commas, and a gauge below \<open>10\<^sup>2\<^sup>1\<close>
  in magnitude is written with two decimals: the sign, the hundredths rounded to the
  nearest integer (a half upwards), and a point before the last two digits.
\<close>

theorem metrics_exposition:
  \<open>(query req ''users'' = None \<or> query req ''users'' = Some [] \<longrightarrow>
      metrics collate P d req = (Sent (error_reply 400 ''Missing query param `users`''), d))
   \<and> (\<forall>s. query req ''users'' = Some s \<and> s \<noteq> [] \<and> 15 < count_list s (CHR '','') \<longrightarrow>
      metrics collate P d req = (Sent (error_reply 400 ''Too many users''), d))
   \<and> (\<forall>s. query req ''users'' = Some s \<and> s \<noteq> [] \<and> count_list s (CHR '','') \<le> 15 \<longrightarrow>
      (\<exists>us d'. metrics collate P d req =
         (Sent \<lparr>http_status = 200, content = Text (
            ''# HELP user_energy Current energy of the user.''
            @ concat (map (\<lambda>l. CHR 0x0A # l)
               ([''# TYPE user_energy gauge'']
                @ map (\<lambda>x. ''user_energy{user="'' @ username x @ ''"} ''
                            @ toFixed2 P (s_energy (fst (fetchMood d (u_id x))))) us
                @ [[],
                   ''# HELP user_pleasantness How pleasant the user is feeling.'',
                   ''# TYPE user_pleasantness gauge'']
                @ map (\<lambda>x. ''user_pleasantness{user="'' @ username x @ ''"} ''
                            @ toFixed2 P (s_pleasantness (fst (fetchMood d (u_id x))))) us
                @ [[],
                   ''# HELP user_mood_sets How often a user has changed their mood.'',
                   ''# TYPE user_mood_sets counter'']
                @ map (\<lambda>x. ''user_mood_sets{user="'' @ username x @ ''"} ''
                            @ show_int (stats_mood_sets x)) us)))\<rparr>,
          d')
        \<and> set us = {u \<in> set (users d). username u \<in> set (split_comma s)
                        \<and> \<not> is_profile_private u \<and> \<not> is_history_private u}
        \<and> length us = length (filter (\<lambda>u. username u \<in> set (split_comma s)
                        \<and> \<not> is_profile_private u \<and> \<not> is_history_private u) (users d))
        \<and> sorted (rev (map (\<lambda>u. collate (username u)) us))
        \<and> users d' = users d \<and> mood d' = mood d
        \<and> filter is_write (issued d') = filter is_write (issued d)))
   \<and> (\<forall>s. split_comma s \<noteq> []
          \<and> s = hd (split_comma s) @ concat (map (\<lambda>w. CHR '','' # w) (tl (split_comma s)))
          \<and> (\<forall>w\<in>set (split_comma s). CHR '','' \<notin> set w))
   \<and> (\<forall>n. show_int (int n) \<noteq> []
          \<and> (\<forall>c\<in>set (show_int (int n)). 48 \<le> (of_char c :: nat) \<and> (of_char c :: nat) \<le> 57)
          \<and> foldl (\<lambda>a c. 10 * a + (of_char c - 48)) 0 (show_int (int n)) = n
          \<and> (10 \<le> n \<longrightarrow> hd (show_int (int n)) \<noteq> CHR ''0''))
   \<and> (\<forall>q n. \<bar>q\<bar> < 10 ^ 21 \<and> n = nat \<lfloor>\<bar>q\<bar> * 100 + 1 / 2\<rfloor> \<longrightarrow>
          toFixed2 P (Fin q) = (if q < 0 then ''-'' else []) @ show_int (int (n div 100)) @ ''.''
             @ [char_of (48 + n div 10 mod 10), char_of (48 + n mod 10)])\<close>
proof (intro conjI allI impI)
  assume "query req ''users'' = None \<or> query req ''users'' = Some []"
  then show "metrics collate P d req
      = (Sent (error_reply 400 ''Missing query param `users`''), d)"
    by (auto simp: metrics_def)
next
  fix s assume "query req ''users'' = Some s \<and> s \<noteq> [] \<and> 15 < count_list s (CHR '','')"
  moreover have "length (split_comma s) = Suc (count_list s (CHR '',''))"
    using split_comma_spec [of s] by simp
  ultimately show "metrics collate P d req = (Sent (error_reply 400 ''Too many users''), d)"
    by (simp add: metrics_def)
next
  fix s assume q: "query req ''users'' = Some s \<and> s \<noteq> [] \<and> count_list s (CHR '','') \<le> 15"
  have len: "length (split_comma s) = Suc (count_list s (CHR '',''))"
    using split_comma_spec [of s] by simp
  obtain us d1 where sel: "select_public_users collate d (split_comma s) = (us, d1)"
    by (cases "select_public_users collate d (split_comma s)")
  from q len have q': "query req ''users'' = Some s" "s \<noteq> []" "length (split_comma s) \<le> 16"
    by simp_all
  from metrics_body [OF q' sel, of P] obtain d' where
    run: "metrics collate P d req =
      (Sent \<lparr>http_status = 200, content = Text (join_lines (exposition
         (map (\<lambda>x. metric_line ''user_energy'' x
                 (toFixed2 P (s_energy (fst (fetchMood d (u_id x)))))) us)
         (map (\<lambda>x. metric_line ''user_pleasantness'' x
                 (toFixed2 P (s_pleasantness (fst (fetchMood d (u_id x)))))) us)
         (map mood_sets_line us)))\<rparr>, d')"
    and same: "users d' = users d" "mood d' = mood d"
      "filter is_write (issued d') = filter is_write (issued d)"
    by blast
  let ?Q = \<open>\<lambda>(us::user_row list) d'. metrics collate P d req =
         (Sent \<lparr>http_status = 200, content = Text (
            ''# HELP user_energy Current energy of the user.''
            @ concat (map (\<lambda>l. CHR 0x0A # l)
               ([''# TYPE user_energy gauge'']
                @ map (\<lambda>x. ''user_energy{user="'' @ username x @ ''"} ''
                            @ toFixed2 P (s_energy (fst (fetchMood d (u_id x))))) us
                @ [[],
                   ''# HELP user_pleasantness How pleasant the user is feeling.'',
                   ''# TYPE user_pleasantness gauge'']
                @ map (\<lambda>x. ''user_pleasantness{user="'' @ username x @ ''"} ''
                            @ toFixed2 P (s_pleasantness (fst (fetchMood d (u_id x))))) us
                @ [[],
                   ''# HELP user_mood_sets How often a user has changed their mood.'',
                   ''# TYPE user_mood_sets counter'']
                @ map (\<lambda>x. ''user_mood_sets{user="'' @ username x @ ''"} ''
                            @ show_int (stats_mood_sets x)) us)))\<rparr>,
          d')
        \<and> set us = {u \<in> set (users d). username u \<in> set (split_comma s)
                        \<and> \<not> is_profile_private u \<and> \<not> is_history_private u}
        \<and> length us = length (filter (\<lambda>u. username u \<in> set (split_comma s)
                        \<and> \<not> is_profile_private u \<and> \<not> is_history_private u) (users d))
        \<and> sorted (rev (map (\<lambda>u. collate (username u)) us))
        \<and> users d' = users d \<and> mood d' = mood d
        \<and> filter is_write (issued d') = filter is_write (issued d)\<close>
  from run same select_public_users_result [OF sel] have "?Q us d'"
    unfolding exposition_text by simp
  then have "\<exists>d'. ?Q us d'"
    by (rule exI [of "?Q us" d'])
  then show "\<exists>us d'. ?Q us d'"
    by (rule exI [of "\<lambda>us. \<exists>d'. ?Q us d'" us])
next
  fix s show "split_comma s \<noteq> []" using split_comma_spec [of s] by simp
next
  fix s show "s = hd (split_comma s) @ concat (map (\<lambda>w. CHR '','' # w) (tl (split_comma s)))"
    using split_comma_spec [of s] by simp
next
  fix s show "\<forall>w\<in>set (split_comma s). CHR '','' \<notin> set w"
    using split_comma_spec [of s] by simp
next
  fix n show "show_int (int n) \<noteq> []" using show_int_decimal [of n] by simp
next
  fix n
  show "\<forall>c\<in>set (show_int (int n)). 48 \<le> (of_char c :: nat) \<and> (of_char c :: nat) \<le> 57"
    using show_int_decimal [of n] by simp
next
  fix n show "foldl (\<lambda>a c. 10 * a + (of_char c - 48)) 0 (show_int (int n)) = n"
    using show_int_decimal [of n] by simp
next
  fix n :: nat assume "10 \<le> n"
  then show "hd (show_int (int n)) \<noteq> CHR ''0''" using show_int_decimal [of n] by simp
next
  fix q :: rat and n :: nat
  assume "\<bar>q\<bar> < 10 ^ 21 \<and> n = nat \<lfloor>\<bar>q\<bar> * 100 + 1 / 2\<rfloor>"
  then have "toFixed2 P (Fin q) = (if q < 0 then ''-'' else []) @ dec (n div 100) @ ''.''
           @ [char_of (48 + n div 10 mod 10), char_of (48 + n mod 10)]"
    using toFixed2_two_decimals [of q n P] by blast
  then show "toFixed2 P (Fin q) = (if q < 0 then ''-'' else []) @ show_int (int (n div 100))
      @ ''.'' @ [char_of (48 + n div 10 mod 10), char_of (48 + n mod 10)]"
    by (simp add: show_int_def)
qed

lemma latest_of_zed:
  "fst (fetchMood db0 (u_id zed)) =
     \<lparr>s_id = Some 3, s_timestamp = 3000, s_pleasantness = Fin (- 1), s_energy = Fin 1\<rparr>"
  by (simp add: fetchMood_def db0_def zed_def row1_def row2_def row3_def fetch_first_def)

lemma fixed_samples:
  "toFixed2 prims0 (Fin 1) = ''1.00''" "toFixed2 prims0 (Fin (- 1)) = ''-1.00''"
  "toFixed2 prims0 (Fin 0) = ''0.00''" "toFixed2 prims0 (Fin (3/4)) = ''0.75''"
  "show_int 3 = ''3''" "show_int 30 = ''30''"
  by code_simp+

lemma split_samples:
  "split_comma ''amy,bob,zed'' = [''amy'', ''bob'', ''zed'']"
  by code_simp

lemma public_users_sample:
  "filter (\<lambda>u. username u \<in> set [''amy'', ''bob'', ''zed'']
        \<and> \<not> is_profile_private u \<and> \<not> is_history_private u) (users db0) = [amy, zed]"
  by (simp add: db0_def amy_def zed_def bob_def)

lemma amy_before_zed:
  "bytewise (username amy) < bytewise (username zed)" "amy \<noteq> zed"
  unfolding amy_def zed_def bytewise_def by code_simp+

lemma two_sorted_desc:
  fixes k :: "'a \<Rightarrow> 'k::linorder"
  assumes "set us = {a, b}" "length us = 2" "k a < k b" "sorted (rev (map k us))"
  shows "us = [b, a]"
proof -
  from assms(2) obtain x y where us: "us = [x, y]"
    by (cases us; cases "tl us"; cases "tl (tl us)") auto
  from assms(4) us have le: "k y \<le> k x" by simp
  from assms(1) us have "{x, y} = {a, b}" by simp
  then consider "x = a \<and> y = b" | "x = b \<and> y = a"
    by (auto simp: doubleton_eq_iff)
  then show ?thesis
  proof cases
    case 1
    with le assms(3) show ?thesis by simp
  next
    case 2
    with us show ?thesis by simp
  qed
qed

text \<open>
  The claim at the sample database: \<open>bob\<close> is private and left out, \<open>zed\<close> comes before
  \<open>amy\<close>, and the body is the text below; seventeen names and a missing parameter are
  answered with 400.
\<close>

theorem metrics_exposition_witness:
  \<open>fst (metrics bytewise prims0 db0 (query_request [(''users'', ''amy,bob,zed'')])) =
     Sent \<lparr>http_status = 200, content = Text (
         ''# HELP user_energy Current energy of the user.\<newline>''
       @ ''# TYPE user_energy gauge\<newline>''
       @ ''user_energy{user="zed"} 1.00\<newline>''
       @ ''user_energy{user="amy"} 0.00\<newline>''
       @ ''\<newline>''
       @ ''# HELP user_pleasantness How pleasant the user is feeling.\<newline>''
       @ ''# TYPE user_pleasantness gauge\<newline>''
       @ ''user_pleasantness{user="zed"} -1.00\<newline>''
       @ ''user_pleasantness{user="amy"} 0.75\<newline>''
       @ ''\<newline>''
       @ ''# HELP user_mood_sets How often a user has changed their mood.\<newline>''
       @ ''# TYPE user_mood_sets counter\<newline>''
       @ ''user_mood_sets{user="zed"} 3\<newline>''
       @ ''user_mood_sets{user="amy"} 30'')\<rparr>
   \<and> users (snd (metrics bytewise prims0 db0 (query_request [(''users'', ''amy,bob,zed'')])))
       = users db0
   \<and> mood (snd (metrics bytewise prims0 db0 (query_request [(''users'', ''amy,bob,zed'')])))
       = mood db0
   \<and> metrics bytewise prims0 db0
         (query_request [(''users'', ''a,b,c,d,e,f,g,h,i,j,k,l,m,n,o,p,q'')])
       = (Sent (error_reply 400 ''Too many users''), db0)
   \<and> metrics bytewise prims0 db0 (query_request [])
       = (Sent (error_reply 400 ''Missing query param `users`''), db0)
   \<and> split_comma ''amy,bob,zed'' = [''amy'', ''bob'', ''zed'']
   \<and> show_int 30 = ''30''\<close>
proof -
  let ?req = "query_request [(''users'', ''amy,bob,zed'')]"
  let ?many = "query_request [(''users'', ''a,b,c,d,e,f,g,h,i,j,k,l,m,n,o,p,q'')]"
  have q: "query ?req ''users'' = Some ''amy,bob,zed''"
    "query ?many ''users'' = Some ''a,b,c,d,e,f,g,h,i,j,k,l,m,n,o,p,q''"
    "query (query_request []) ''users'' = None"
    by (simp_all add: query_request_def)
  note T = metrics_exposition [of _ bytewise prims0 db0]
  note T3 = T [of ?req, THEN conjunct2, THEN conjunct2, THEN conjunct1, rule_format,
      of "''amy,bob,zed''"]
  note T2 = T [of ?many, THEN conjunct2, THEN conjunct1, rule_format,
      of "''a,b,c,d,e,f,g,h,i,j,k,l,m,n,o,p,q''"]
  note T1 = T [of "query_request []", THEN conjunct1, rule_format]
  have many: "metrics bytewise prims0 db0 ?many = (Sent (error_reply 400 ''Too many users''), db0)"
    by (rule T2) (simp add: q)
  have none: "metrics bytewise prims0 db0 (query_request [])
       = (Sent (error_reply 400 ''Missing query param `users`''), db0)"
    by (rule T1) (simp add: q)
  have pre: "query ?req ''users'' = Some ''amy,bob,zed'' \<and> ''amy,bob,zed'' \<noteq> []
      \<and> count_list ''amy,bob,zed'' (CHR '','') \<le> 15"
    by (simp add: q)
  from T3 [OF pre] obtain us d' where
    run: \<open>metrics bytewise prims0 db0 ?req =
         (Sent \<lparr>http_status = 200, content = Text (
            ''# HELP user_energy Current energy of the user.''
            @ concat (map (\<lambda>l. CHR 0x0A # l)
               ([''# TYPE user_energy gauge'']
                @ map (\<lambda>x. ''user_energy{user="'' @ username x @ ''"} ''
                            @ toFixed2 prims0 (s_energy (fst (fetchMood db0 (u_id x))))) us
                @ [[],
                   ''# HELP user_pleasantness How pleasant the user is feeling.'',
                   ''# TYPE user_pleasantness gauge'']
                @ map (\<lambda>x. ''user_pleasantness{user="'' @ username x @ ''"} ''
                            @ toFixed2 prims0 (s_pleasantness (fst (fetchMood db0 (u_id x))))) us
                @ [[],
                   ''# HELP user_mood_sets How often a user has changed their mood.'',
                   ''# TYPE user_mood_sets counter'']
                @ map (\<lambda>x. ''user_mood_sets{user="'' @ username x @ ''"} ''
                            @ show_int (stats_mood_sets x)) us)))\<rparr>,
          d')\<close>
    and set: "set us = {u \<in> set (users db0). username u \<in> set (split_comma ''amy,bob,zed'')
                        \<and> \<not> is_profile_private u \<and> \<not> is_history_private u}"
    and len: "length us = length (filter (\<lambda>u. username u \<in> set (split_comma ''amy,bob,zed'')
                        \<and> \<not> is_profile_private u \<and> \<not> is_history_private u) (users db0))"
    and ord: "sorted (rev (map (\<lambda>u. bytewise (username u)) us))"
    and same: "users d' = users db0" "mood d' = mood db0"
    by blast
  have "set us = set (filter (\<lambda>u. username u \<in> set [''amy'', ''bob'', ''zed'']
        \<and> \<not> is_profile_private u \<and> \<not> is_history_private u) (users db0))"
    unfolding set split_samples by auto
  then have set2: "set us = {amy, zed}"
    unfolding public_users_sample by simp
  from len have len2: "length us = 2"
    unfolding split_samples public_users_sample by simp
  from two_sorted_desc [OF set2 len2 amy_before_zed(1) ord] have us: "us = [zed, amy]" .
  have st: "stats_mood_sets zed = 3" "stats_mood_sets amy = 30"
    "username zed = ''zed''" "username amy = ''amy''"
    by (simp_all add: zed_def amy_def)
  have body: \<open>fst (metrics bytewise prims0 db0 ?req) =
     Sent \<lparr>http_status = 200, content = Text (
         ''# HELP user_energy Current energy of the user.\<newline>''
       @ ''# TYPE user_energy gauge\<newline>''
       @ ''user_energy{user="zed"} 1.00\<newline>''
       @ ''user_energy{user="amy"} 0.00\<newline>''
       @ ''\<newline>''
       @ ''# HELP user_pleasantness How pleasant the user is feeling.\<newline>''
       @ ''# TYPE user_pleasantness gauge\<newline>''
       @ ''user_pleasantness{user="zed"} -1.00\<newline>''
       @ ''user_pleasantness{user="amy"} 0.75\<newline>''
       @ ''\<newline>''
       @ ''# HELP user_mood_sets How often a user has changed their mood.\<newline>''
       @ ''# TYPE user_mood_sets counter\<newline>''
       @ ''user_mood_sets{user="zed"} 3\<newline>''
       @ ''user_mood_sets{user="amy"} 30'')\<rparr>\<close>
    unfolding run us
    by (simp add: latest_of_zed latest_of_amy fixed_samples st)
  from run same have same': "users (snd (metrics bytewise prims0 db0 ?req)) = users db0"
    "mood (snd (metrics bytewise prims0 db0 ?req)) = mood db0"
    by simp_all
  from body same' many none split_samples fixed_samples(6) show ?thesis
    by (intro conjI)
qed

end
